theory Spec2Isabelle
  imports Main "HOL-Library.Word" "HOL-Library.List_Lexorder" "HOL-Library.Char_ord"
begin

section \<open>Shared vocabulary\<close>

text \<open>
  Exit codes of \<^verbatim>\<open>sysexits.h\<close>: \<^verbatim>\<open>EX_OK\<close> is 0, the error codes
  range from \<^verbatim>\<open>EX__BASE\<close> = \<^verbatim>\<open>EX_USAGE\<close> = 64 to \<^verbatim>\<open>EX__MAX\<close> = 78.
\<close>

definition EX_OK :: int where "EX_OK = 0"


text \<open>
  Modelled from the spec: the numeric values of \<^verbatim>\<open>ErrorCode\<close>
  (\<^verbatim>\<open>common/error_code.h\<close> is not among the sources). The spec gives
  \<^verbatim>\<open>kSuccess\<close> = 0 and \<^verbatim>\<open>kUpdatedButNotActive\<close> = 52. An \<^verbatim>\<open>ErrorCode\<close> is
  kept as its integer value, as \<^verbatim>\<open>static_cast<ErrorCode>(error_code)\<close> does.
\<close>

type_synonym ErrorCode = int

definition kSuccess :: ErrorCode where "kSuccess = 0"
definition kUpdatedButNotActive :: ErrorCode where "kUpdatedButNotActive = 52"

section \<open>The install plan (\<^verbatim>\<open>payload_consumer/install_plan.h\<close>)\<close>

datatype InstallPayloadType = kUnknown | kFull | kDelta

type_synonym Blob = "8 word list"

text \<open>
  Modelled from the spec: \<^verbatim>\<open>BootControlInterface::Slot\<close> and \<^verbatim>\<open>kInvalidSlot\<close>
  (\<^verbatim>\<open>common/boot_control_interface.h\<close> is not among the sources). A slot is an
  unsigned number, and the spec calls the value of an unset slot the sentinel
  "invalid": it is the largest unsigned value.
\<close>

type_synonym Slot = "32 word"

definition kInvalidSlot :: Slot where "kInvalidSlot = - 1"

record Payload =
  payload_urls :: "string list"
  size :: "64 word"
  metadata_size :: "64 word"
  metadata_signature :: string
  hash :: Blob
  type :: InstallPayloadType
  fp :: string
  app_id :: string
  already_applied :: bool

record Partition =
  name :: string
  source_path :: string
  source_size :: "64 word"
  source_hash :: Blob
  target_path :: string
  readonly_target_path :: string
  target_size :: "64 word"
  target_hash :: Blob
  block_size :: "32 word"
  run_postinstall :: bool
  postinstall_path :: string
  filesystem_type :: string
  postinstall_optional :: bool
  hash_tree_data_offset :: "64 word"
  hash_tree_data_size :: "64 word"
  hash_tree_offset :: "64 word"
  hash_tree_size :: "64 word"
  hash_tree_algorithm :: string
  hash_tree_salt :: Blob
  fec_data_offset :: "64 word"
  fec_data_size :: "64 word"
  fec_offset :: "64 word"
  fec_size :: "64 word"
  fec_roots :: "32 word"

record InstallPlan =
  is_resume :: bool
  vabc_none :: bool
  disable_vabc :: bool
  download_url :: string
  version :: string
  payloads :: "Payload list"
  source_slot :: Slot
  target_slot :: Slot
  partitions :: "Partition list"
  hash_checks_mandatory :: bool
  powerwash_required :: bool
  spl_downgrade :: bool
  switch_slot_on_reboot :: bool
  run_post_install :: bool
  write_verity :: bool
  public_key_rsa :: string
  untouched_dynamic_partitions :: "string list"
  batched_writes :: bool
  enable_threading :: "bool option"

text \<open>
  \<^verbatim>\<open>InstallPlan() = default\<close>: every member takes its default member initializer;
  strings and vectors start empty, the optional starts disengaged.
\<close>

definition InstallPlan_default :: InstallPlan where
  "InstallPlan_default = \<lparr>
     is_resume = False,
     vabc_none = False,
     disable_vabc = False,
     download_url = [],
     version = [],
     payloads = [],
     source_slot = kInvalidSlot,
     target_slot = kInvalidSlot,
     partitions = [],
     hash_checks_mandatory = False,
     powerwash_required = False,
     spl_downgrade = False,
     switch_slot_on_reboot = True,
     run_post_install = True,
     write_verity = True,
     public_key_rsa = [],
     untouched_dynamic_partitions = [],
     batched_writes = False,
     enable_threading = None \<rparr>"

subsection \<open>\<^verbatim>\<open>InstallPlanAction\<close>\<close>

text \<open>
  Modelled from the spec: the base class \<^verbatim>\<open>Action\<close> and its pipe
  (\<^verbatim>\<open>common/action.h\<close> and \<^verbatim>\<open>common/action_pipe.h\<close> are not among the sources).
  The spec has each stage pass its output object forward and report a terminal
  error code. A pipe holds one object (\<^verbatim>\<open>contents\<close>, \<^verbatim>\<open>None\<close> until one is
  set), \<^verbatim>\<open>HasOutputPipe\<close> tests whether a pipe is attached, \<^verbatim>\<open>SetOutputObject\<close>
  stores into the attached pipe, and \<^verbatim>\<open>ActionComplete\<close> hands the processor the
  action's error code. The action itself owns its plan (\<^verbatim>\<open>install_plan_\<close>).
\<close>

record ActionPipe =
  contents :: "InstallPlan option"

record InstallPlanAction =
  install_plan :: InstallPlan
  out_pipe :: "ActionPipe option"
  completed :: "ErrorCode option"

definition HasOutputPipe :: "InstallPlanAction \<Rightarrow> bool" where
  "HasOutputPipe a = (out_pipe a \<noteq> None)"

definition SetOutputObject :: "InstallPlan \<Rightarrow> InstallPlanAction \<Rightarrow> InstallPlanAction" where
  "SetOutputObject out_obj a =
     a\<lparr>out_pipe := map_option (\<lambda>p. p\<lparr>contents := Some out_obj\<rparr>) (out_pipe a)\<rparr>"

definition ActionComplete :: "ErrorCode \<Rightarrow> InstallPlanAction \<Rightarrow> InstallPlanAction" where
  "ActionComplete code a = a\<lparr>completed := Some code\<rparr>"

definition PerformAction :: "InstallPlanAction \<Rightarrow> InstallPlanAction" where
  "PerformAction a =
     ActionComplete kSuccess
       (if HasOutputPipe a then SetOutputObject (install_plan a) a else a)"

section \<open>String helpers of the base library\<close>

text \<open>
  \<^verbatim>\<open>base::SplitString(input, separators, whitespace, result_type)\<close> of libchrome,
  which the client and the key/value store call. An empty input gives no piece at
  all; otherwise the input is scanned for the next separator character
  (\<^verbatim>\<open>find_first_of\<close>), the piece before it is trimmed when asked for, and kept
  unless it is empty and only non-empty pieces are wanted. \<^verbatim>\<open>cur\<close> holds the
  characters of the piece read so far.
\<close>

datatype WhitespaceHandling = KEEP_WHITESPACE | TRIM_WHITESPACE

datatype SplitResult = SPLIT_WANT_ALL | SPLIT_WANT_NONEMPTY

abbreviation NL :: char where "NL \<equiv> CHR 0x0A"

definition kWhitespaceASCII :: string where
  "kWhitespaceASCII = [CHR 0x09, CHR 0x0A, CHR 0x0B, CHR 0x0C, CHR 0x0D, CHR 0x20]"

definition TrimLeading :: "string \<Rightarrow> string" where
  "TrimLeading s = dropWhile (\<lambda>c. c \<in> set kWhitespaceASCII) s"

definition TrimTrailing :: "string \<Rightarrow> string" where
  "TrimTrailing s = rev (dropWhile (\<lambda>c. c \<in> set kWhitespaceASCII) (rev s))"

definition TrimAll :: "string \<Rightarrow> string" where
  "TrimAll s = TrimTrailing (TrimLeading s)"

definition push_piece ::
  "WhitespaceHandling \<Rightarrow> SplitResult \<Rightarrow> string \<Rightarrow> string list \<Rightarrow> string list" where
  "push_piece whitespace result_type piece result =
     (let piece' = (if whitespace = TRIM_WHITESPACE then TrimAll piece else piece)
      in if result_type = SPLIT_WANT_ALL \<or> piece' \<noteq> [] then piece' # result else result)"

fun SplitStringT ::
  "string \<Rightarrow> WhitespaceHandling \<Rightarrow> SplitResult \<Rightarrow> string \<Rightarrow> string \<Rightarrow> string list" where
  "SplitStringT separators whitespace result_type cur [] =
     push_piece whitespace result_type cur []"
| "SplitStringT separators whitespace result_type cur (c # cs) =
     (if c \<in> set separators
      then push_piece whitespace result_type cur
             (SplitStringT separators whitespace result_type [] cs)
      else SplitStringT separators whitespace result_type (cur @ [c]) cs)"

definition SplitString ::
  "string \<Rightarrow> string \<Rightarrow> WhitespaceHandling \<Rightarrow> SplitResult \<Rightarrow> string list" where
  "SplitString input separators whitespace result_type =
     (if input = [] then []
      else SplitStringT separators whitespace result_type [] input)"

section \<open>The command-line client (\<^verbatim>\<open>aosp/update_engine_client_android.cc\<close>)\<close>

text \<open>
  An \<^verbatim>\<open>android::String16\<close> is kept as the byte string it was constructed from.
\<close>

datatype String16 = String16 string

definition ParseHeaders :: "string \<Rightarrow> String16 list" where
  "ParseHeaders arg =
     map String16 (SplitString arg [NL] KEEP_WHITESPACE SPLIT_WANT_NONEMPTY)"

text \<open>
  A binder \<^verbatim>\<open>Status\<close> is kept as its exception code; \<^verbatim>\<open>isOk\<close> holds when the
  code is \<^verbatim>\<open>EX_NONE\<close> = 0.
\<close>

datatype Status = Status (exceptionCode: int)


text \<open>
  The daemon behind the binder interface is outside the client: each call of
  \<^verbatim>\<open>IUpdateEngine\<close> is given by the answer the daemon returns.
\<close>

record IUpdateEngine =
  bind :: "Status \<times> bool"
  suspend :: Status
  resume :: Status
  cancel :: Status
  resetStatus :: Status
  triggerPostinstall :: "String16 \<Rightarrow> Status"
  setShouldSwitchSlotOnReboot :: "String16 \<Rightarrow> Status"
  resetShouldSwitchSlotOnReboot :: Status
  verifyPayloadApplicable :: "String16 \<Rightarrow> Status \<times> bool"
  allocateSpaceForPayload :: "String16 \<Rightarrow> String16 list \<Rightarrow> Status \<times> int"
  cleanupSuccessfulUpdate :: Status
  setPerformanceMode :: "bool \<Rightarrow> Status"
  applyPayload :: "String16 \<Rightarrow> int \<Rightarrow> int \<Rightarrow> String16 list \<Rightarrow> Status"

record Flags =
  FLAGS_update :: bool
  FLAGS_payload :: string
  FLAGS_offset :: int
  FLAGS_size :: int
  FLAGS_headers :: string
  FLAGS_verify :: bool
  FLAGS_allocate :: bool
  FLAGS_metadata :: string
  FLAGS_switch_slot :: string
  FLAGS_trigger_postinstall :: string
  FLAGS_suspend :: bool
  FLAGS_resume :: bool
  FLAGS_cancel :: bool
  FLAGS_reset_status :: bool
  FLAGS_follow :: bool
  FLAGS_merge :: bool
  FLAGS_perf_mode :: bool

definition UNSPECIFIED_FLAG :: string where
  "UNSPECIFIED_FLAG = ''unspecified''"

text \<open>The values the \<^verbatim>\<open>DEFINE_*\<close> lines give the flags when none is passed.\<close>

definition Flags_default :: Flags where
  "Flags_default = \<lparr>
     FLAGS_update = False,
     FLAGS_payload = ''http://127.0.0.1:8080/payload'',
     FLAGS_offset = 0,
     FLAGS_size = 0,
     FLAGS_headers = [],
     FLAGS_verify = False,
     FLAGS_allocate = False,
     FLAGS_metadata = ''/data/ota_package/metadata'',
     FLAGS_switch_slot = UNSPECIFIED_FLAG,
     FLAGS_trigger_postinstall = UNSPECIFIED_FLAG,
     FLAGS_suspend = False,
     FLAGS_resume = False,
     FLAGS_cancel = False,
     FLAGS_reset_status = False,
     FLAGS_follow = False,
     FLAGS_merge = False,
     FLAGS_perf_mode = False \<rparr>"

text \<open>
  What the process is started with and what its surroundings answer: the result of
  \<^verbatim>\<open>Daemon::OnInit\<close>, \<^verbatim>\<open>argc\<close>, the positional arguments and flag values the
  command line parses to, the service the service manager returns (\<^verbatim>\<open>None\<close> when
  \<^verbatim>\<open>getService\<close> fails), and whether the message loop accepts a posted task.
\<close>

record Env =
  Daemon_OnInit :: int
  argc :: int
  positional_args :: "string list"
  flags :: Flags
  getService :: "IUpdateEngine option"
  PostTask_ok :: bool

datatype AllocateLog = SuccessfullyAllocated | InsufficientSpace int | AllocationFailed

text \<open>
  The client's own state: the \<^verbatim>\<open>QuitWithExitCode\<close> tasks posted to the message loop
  (in posting order), whether the status callback and the cleanup callback are
  registered, whether death notifications are registered, and what the
  \<^verbatim>\<open>--allocate\<close> branch logged.
\<close>

record Client =
  quit_tasks :: "int list"
  callback :: bool
  cleanup_callback :: bool
  death_notification :: bool
  allocate_log :: "AllocateLog list"

definition Client_init :: Client where
  "Client_init = \<lparr> quit_tasks = [], callback = False, cleanup_callback = False,
     death_notification = False, allocate_log = [] \<rparr>"

definition ExitWhenIdle_int :: "Env \<Rightarrow> int \<Rightarrow> Client \<Rightarrow> int \<times> Client" where
  "ExitWhenIdle_int env return_code c =
     (if \<not> PostTask_ok env then (1, c)
      else (EX_OK, c\<lparr>quit_tasks := quit_tasks c @ [return_code]\<rparr>))"


definition onPayloadApplicationComplete :: "Env \<Rightarrow> int \<Rightarrow> Client \<Rightarrow> Client" where
  "onPayloadApplicationComplete env error_code c =
     (let code = error_code
      in snd (ExitWhenIdle_int env
                (if code = kSuccess \<or> code = kUpdatedButNotActive then EX_OK else 1) c))"

text \<open>
  The message loop runs the posted tasks in order, and \<^verbatim>\<open>QuitWithExitCode\<close> ends
  the loop with its code: the process exits with the code of the first such task,
  and keeps running while there is none.
\<close>

definition exit_code_of :: "Client \<Rightarrow> int option" where
  "exit_code_of c = (case quit_tasks c of [] \<Rightarrow> None | rc # _ \<Rightarrow> Some rc)"












definition Env_of :: "int \<Rightarrow> string list \<Rightarrow> Flags \<Rightarrow> IUpdateEngine option \<Rightarrow> Env" where
  "Env_of n args f service = \<lparr> Daemon_OnInit = EX_OK, argc = n, positional_args = args,
     flags = f, getService = service, PostTask_ok = True \<rparr>"

text \<open>
  Lines joined by single newline characters: the text whose lines are \<open>ls\<close>. It is
  used to state what \<^verbatim>\<open>ParseHeaders\<close> returns.
\<close>

fun join_lines :: "string list \<Rightarrow> string" where
  "join_lines [] = []"
| "join_lines [l] = l"
| "join_lines (l # l' # ls) = l @ NL # join_lines (l' # ls)"

section \<open>Decimal text\<close>

text \<open>
  \<^verbatim>\<open>std::format("{}", n)\<close> of an integer is its decimal text, with a leading minus
  sign for a negative one. \<^verbatim>\<open>parse_nat\<close> and \<^verbatim>\<open>parse_int\<close> are the readers of that
  text: digits only, at least one.
\<close>

definition digit_char :: "nat \<Rightarrow> char" where
  "digit_char d = ''0123456789'' ! d"

function format_nat :: "nat \<Rightarrow> string" where
  "format_nat n =
     (if n < 10 then [digit_char n] else format_nat (n div 10) @ [digit_char (n mod 10)])"
  by pat_completeness auto
termination
  by (relation "measure id") auto

declare format_nat.simps [simp del]

definition format_int :: "int \<Rightarrow> string" where
  "format_int i = (if i < 0 then CHR ''-'' # format_nat (nat (- i)) else format_nat (nat i))"

definition digit_value :: "char \<Rightarrow> nat option" where
  "digit_value c =
     (if CHR ''0'' \<le> c \<and> c \<le> CHR ''9'' then Some (of_char c - of_char CHR ''0'') else None)"

fun parse_digits :: "nat \<Rightarrow> string \<Rightarrow> nat option" where
  "parse_digits acc [] = Some acc"
| "parse_digits acc (c # cs) =
     (case digit_value c of None \<Rightarrow> None | Some d \<Rightarrow> parse_digits (acc * 10 + d) cs)"

definition parse_nat :: "string \<Rightarrow> nat option" where
  "parse_nat s = (if s = [] then None else parse_digits 0 s)"

definition parse_int :: "string \<Rightarrow> int option" where
  "parse_int s =
     (case s of
        [] \<Rightarrow> None
      | c # cs \<Rightarrow>
          if c = CHR ''-'' then map_option (\<lambda>n. - int n) (parse_nat cs)
          else map_option int (parse_nat s))"

section \<open>The key/value store of libbrillo\<close>

text \<open>
  \<^verbatim>\<open>brillo::KeyValueStore\<close> keeps a \<^verbatim>\<open>std::map<std::string, std::string>\<close>: here an
  association list in ascending key order without repeated keys, which is the order
  \<^verbatim>\<open>SaveToString\<close> walks. \<^verbatim>\<open>store_assign\<close> is \<^verbatim>\<open>store_[key] = value\<close>.
  \<^verbatim>\<open>SetString\<close> trims the key first (\<^verbatim>\<open>TrimKey\<close>; it aborts on an empty key, and
  the keys used below are non-empty constants). \<^verbatim>\<open>SaveToString\<close> writes
  \<^verbatim>\<open>key=value\<close> and a newline for each entry, with no escaping.
\<close>

type_synonym KeyValueStore = "(string \<times> string) list"

fun store_assign :: "string \<Rightarrow> string \<Rightarrow> KeyValueStore \<Rightarrow> KeyValueStore" where
  "store_assign key value [] = [(key, value)]"
| "store_assign key value ((k, v) # rest) =
     (if key = k then (key, value) # rest
      else if key < k then (key, value) # (k, v) # rest
      else (k, v) # store_assign key value rest)"

definition kTrueValue :: string where "kTrueValue = ''true''"
definition kFalseValue :: string where "kFalseValue = ''false''"

definition TrimKey :: "string \<Rightarrow> string" where
  "TrimKey key = TrimAll key"

definition SetString :: "string \<Rightarrow> string \<Rightarrow> KeyValueStore \<Rightarrow> KeyValueStore" where
  "SetString key value store = store_assign (TrimKey key) value store"

definition SetBoolean :: "string \<Rightarrow> bool \<Rightarrow> KeyValueStore \<Rightarrow> KeyValueStore" where
  "SetBoolean key value store = SetString key (if value then kTrueValue else kFalseValue) store"

definition GetString :: "string \<Rightarrow> KeyValueStore \<Rightarrow> string option" where
  "GetString key store = map_of store (TrimKey key)"

definition GetBoolean :: "string \<Rightarrow> KeyValueStore \<Rightarrow> bool option" where
  "GetBoolean key store =
     (case GetString key store of
        None \<Rightarrow> None
      | Some string_value \<Rightarrow>
          if string_value = kTrueValue then Some True
          else if string_value = kFalseValue then Some False
          else None)"

definition SaveToString :: "KeyValueStore \<Rightarrow> string" where
  "SaveToString store = concat (map (\<lambda>(key, value). key @ ''='' @ value @ [NL]) store)"

text \<open>
  \<^verbatim>\<open>LoadFromString\<close> splits the text at newlines, keeping every piece. Of each line
  it trims the leading whitespace and skips the line when it is then empty or starts
  with \<^verbatim>\<open>#\<close>; it splits the line at the first \<^verbatim>\<open>=\<close> (failing when there is
  none), trims the key's trailing whitespace (failing when the key is empty), and,
  as long as the value ends in a backslash, drops the backslash and appends the next
  line (failing when there is none or it is empty). \<^verbatim>\<open>None\<close> is the result
  \<^verbatim>\<open>false\<close>.
\<close>

definition SplitAtFirst :: "string \<Rightarrow> char \<Rightarrow> (string \<times> string) option" where
  "SplitAtFirst str delimiter =
     (if delimiter \<in> set str
      then Some (takeWhile (\<lambda>c. c \<noteq> delimiter) str, tl (dropWhile (\<lambda>c. c \<noteq> delimiter) str))
      else None)"

fun append_continuation_lines :: "string \<Rightarrow> string list \<Rightarrow> (string \<times> string list) option" where
  "append_continuation_lines value lines =
     (if value \<noteq> [] \<and> last value = CHR 0x5C then
        (case lines of
           [] \<Rightarrow> None
         | l # rest \<Rightarrow>
             if l = [] then None else append_continuation_lines (butlast value @ l) rest)
      else Some (value, lines))"

declare append_continuation_lines.simps [simp del]

lemma append_continuation_lines_length:
  "append_continuation_lines value lines = Some (value', lines') \<Longrightarrow>
   length lines' \<le> length lines"
proof (induction lines arbitrary: "value")
  case Nil
  then show ?case
    by (simp add: append_continuation_lines.simps [of _ "[]"] split: if_splits)
next
  case (Cons l rest)
  show ?case
  proof (cases "value \<noteq> [] \<and> last value = CHR 0x5C")
    case True
    with Cons.prems have "append_continuation_lines (butlast value @ l) rest = Some (value', lines')"
      by (simp add: append_continuation_lines.simps [of "value" "l # rest"] split: if_splits)
    then have "length lines' \<le> length rest" by (rule Cons.IH)
    then show ?thesis by simp
  next
    case False
    with Cons.prems show ?thesis
      by (simp add: append_continuation_lines.simps [of "value" "l # rest"])
  qed
qed

function LoadLines :: "string list \<Rightarrow> KeyValueStore \<Rightarrow> KeyValueStore option" where
  "LoadLines [] store = Some store"
| "LoadLines (l # rest) store =
     (let line = TrimLeading l in
      if line = [] \<or> hd line = CHR ''#'' then LoadLines rest store
      else
        (case SplitAtFirst line CHR ''='' of
           None \<Rightarrow> None
         | Some (key, value) \<Rightarrow>
             (let key' = TrimTrailing key in
              if key' = [] then None
              else
                (case append_continuation_lines value rest of
                   None \<Rightarrow> None
                 | Some (value', rest') \<Rightarrow> LoadLines rest' (store_assign key' value' store)))))"
  by pat_completeness auto
termination
proof (relation "measure (\<lambda>(lines, store). length lines)")
  show "wf (measure (\<lambda>(lines, store). length lines))" by simp
next
  fix l rest store line
  show "((rest, store), l # rest, store) \<in> measure (\<lambda>(lines, store). length lines)" by simp
next
  fix l rest and store :: KeyValueStore and line x2 key "value" key' x2a value' rest'
  assume "append_continuation_lines value rest = Some x2a" "(value', rest') = x2a"
  then have "length rest' \<le> length rest"
    using append_continuation_lines_length [of "value" rest value' rest'] by simp
  then show "((rest', store_assign key' value' store), l # rest, store)
               \<in> measure (\<lambda>(lines, store). length lines)"
    by simp
qed

declare LoadLines.simps [simp del]

definition LoadFromString :: "string \<Rightarrow> KeyValueStore option" where
  "LoadFromString data = LoadLines (SplitString data [NL] KEEP_WHITESPACE SPLIT_WANT_ALL) []"

section \<open>Status export (\<^verbatim>\<open>update_status_utils.cc\<close>)\<close>

text \<open>
  The enumerators of \<^verbatim>\<open>UpdateStatus\<close> are those of the \<^verbatim>\<open>switch\<close> in
  \<^verbatim>\<open>UpdateStatusToString\<close>, in the order of its cases.
\<close>

datatype UpdateStatus =
    IDLE
  | CHECKING_FOR_UPDATE
  | UPDATE_AVAILABLE
  | DOWNLOADING
  | VERIFYING
  | FINALIZING
  | UPDATED_NEED_REBOOT
  | REPORTING_ERROR_EVENT
  | ATTEMPTING_ROLLBACK
  | DISABLED
  | NEED_PERMISSION_TO_UPDATE
  | CLEANUP_PREVIOUS_UPDATE

definition kCurrentOp :: string where "kCurrentOp = ''CURRENT_OP''"
definition kIsInstall :: string where "kIsInstall = ''IS_INSTALL''"
definition kIsEnterpriseRollback :: string where
  "kIsEnterpriseRollback = ''IS_ENTERPRISE_ROLLBACK''"
definition kLastCheckedTime :: string where "kLastCheckedTime = ''LAST_CHECKED_TIME''"
definition kNewSize :: string where "kNewSize = ''NEW_SIZE''"
definition kNewVersion :: string where "kNewVersion = ''NEW_VERSION''"
definition kProgress :: string where "kProgress = ''PROGRESS''"
definition kWillPowerwashAfterReboot :: string where
  "kWillPowerwashAfterReboot = ''WILL_POWERWASH_AFTER_REBOOT''"

definition kUpdateStatusIdle :: string where
  "kUpdateStatusIdle = ''UPDATE_STATUS_IDLE''"
definition kUpdateStatusCheckingForUpdate :: string where
  "kUpdateStatusCheckingForUpdate = ''UPDATE_STATUS_CHECKING_FOR_UPDATE''"
definition kUpdateStatusUpdateAvailable :: string where
  "kUpdateStatusUpdateAvailable = ''UPDATE_STATUS_UPDATE_AVAILABLE''"
definition kUpdateStatusDownloading :: string where
  "kUpdateStatusDownloading = ''UPDATE_STATUS_DOWNLOADING''"
definition kUpdateStatusVerifying :: string where
  "kUpdateStatusVerifying = ''UPDATE_STATUS_VERIFYING''"
definition kUpdateStatusFinalizing :: string where
  "kUpdateStatusFinalizing = ''UPDATE_STATUS_FINALIZING''"
definition kUpdateStatusUpdatedNeedReboot :: string where
  "kUpdateStatusUpdatedNeedReboot = ''UPDATE_STATUS_UPDATED_NEED_REBOOT''"
definition kUpdateStatusReportingErrorEvent :: string where
  "kUpdateStatusReportingErrorEvent = ''UPDATE_STATUS_REPORTING_ERROR_EVENT''"
definition kUpdateStatusAttemptingRollback :: string where
  "kUpdateStatusAttemptingRollback = ''UPDATE_STATUS_ATTEMPTING_ROLLBACK''"
definition kUpdateStatusDisabled :: string where
  "kUpdateStatusDisabled = ''UPDATE_STATUS_DISABLED''"
definition kUpdateStatusNeedPermissionToUpdate :: string where
  "kUpdateStatusNeedPermissionToUpdate = ''UPDATE_STATUS_NEED_PERMISSION_TO_UPDATE''"
definition kUpdateStatusCleanupPreviousUpdate :: string where
  "kUpdateStatusCleanupPreviousUpdate = ''UPDATE_STATUS_CLEANUP_PREVIOUS_UPDATE''"

fun UpdateStatusToString :: "UpdateStatus \<Rightarrow> string" where
  "UpdateStatusToString IDLE = kUpdateStatusIdle"
| "UpdateStatusToString CHECKING_FOR_UPDATE = kUpdateStatusCheckingForUpdate"
| "UpdateStatusToString UPDATE_AVAILABLE = kUpdateStatusUpdateAvailable"
| "UpdateStatusToString NEED_PERMISSION_TO_UPDATE = kUpdateStatusNeedPermissionToUpdate"
| "UpdateStatusToString DOWNLOADING = kUpdateStatusDownloading"
| "UpdateStatusToString VERIFYING = kUpdateStatusVerifying"
| "UpdateStatusToString FINALIZING = kUpdateStatusFinalizing"
| "UpdateStatusToString UPDATED_NEED_REBOOT = kUpdateStatusUpdatedNeedReboot"
| "UpdateStatusToString REPORTING_ERROR_EVENT = kUpdateStatusReportingErrorEvent"
| "UpdateStatusToString ATTEMPTING_ROLLBACK = kUpdateStatusAttemptingRollback"
| "UpdateStatusToString DISABLED = kUpdateStatusDisabled"
| "UpdateStatusToString CLEANUP_PREVIOUS_UPDATE = kUpdateStatusCleanupPreviousUpdate"

text \<open>
  Modelled from the spec: \<^verbatim>\<open>struct UpdateEngineStatus\<close> is declared in
  \<^verbatim>\<open>update_status.h\<close>, which is not among the sources. The record has the fields the
  spec names and \<^verbatim>\<open>UpdateEngineStatusToString\<close> reads: a signed 64-bit time, an
  unsigned 64-bit size, the status, a string and three booleans. \<^verbatim>\<open>progress\<close> is a
  \<^verbatim>\<open>double\<close>; the record leaves its representation open (\<open>'d\<close>).
\<close>

record 'd UpdateEngineStatus =
  last_checked_time :: "64 word"
  progress :: 'd
  new_size_bytes :: "64 word"
  status :: UpdateStatus
  new_version :: string
  is_enterprise_rollback :: bool
  is_install :: bool
  will_powerwash_after_reboot :: bool

text \<open>
  \<^verbatim>\<open>std::format("{}", status.progress)\<close> is the parameter \<open>format_double\<close> of the
  functions below. Whatever the \<^verbatim>\<open>double\<close>, the text the standard library writes
  for it with \<^verbatim>\<open>{}\<close> is made of decimal digits, a point, \<^verbatim>\<open>e\<close>, the two signs
  and the letters of \<^verbatim>\<open>inf\<close> and \<^verbatim>\<open>nan\<close>: \<open>format_double\<close> returns a list over
  this alphabet, \<^verbatim>\<open>FloatChar\<close>, and \<^verbatim>\<open>float_char\<close> is the character written.
\<close>

datatype FloatChar =
    D0 | D1 | D2 | D3 | D4 | D5 | D6 | D7 | D8 | D9
  | Point | Exponent | Plus | Minus
  | Letter_i | Letter_n | Letter_f | Letter_a

fun float_char :: "FloatChar \<Rightarrow> char" where
  "float_char D0 = CHR ''0''"
| "float_char D1 = CHR ''1''"
| "float_char D2 = CHR ''2''"
| "float_char D3 = CHR ''3''"
| "float_char D4 = CHR ''4''"
| "float_char D5 = CHR ''5''"
| "float_char D6 = CHR ''6''"
| "float_char D7 = CHR ''7''"
| "float_char D8 = CHR ''8''"
| "float_char D9 = CHR ''9''"
| "float_char Point = CHR ''.''"
| "float_char Exponent = CHR ''e''"
| "float_char Plus = CHR ''+''"
| "float_char Minus = CHR ''-''"
| "float_char Letter_i = CHR ''i''"
| "float_char Letter_n = CHR ''n''"
| "float_char Letter_f = CHR ''f''"
| "float_char Letter_a = CHR ''a''"

definition float_text :: "FloatChar list \<Rightarrow> string" where
  "float_text t = map float_char t"

text \<open>
  \<^verbatim>\<open>UpdateEngineStatusStore\<close> is the local \<^verbatim>\<open>key_value_store\<close> after the eight
  \<^verbatim>\<open>Set\<close> calls, the first call innermost.
\<close>

definition UpdateEngineStatusStore ::
  "('d \<Rightarrow> FloatChar list) \<Rightarrow> 'd UpdateEngineStatus \<Rightarrow> KeyValueStore" where
  "UpdateEngineStatusStore format_double st =
     (SetBoolean kWillPowerwashAfterReboot (will_powerwash_after_reboot st)
     (SetBoolean kIsInstall (is_install st)
     (SetBoolean kIsEnterpriseRollback (is_enterprise_rollback st)
     (SetString kNewVersion (new_version st)
     (SetString kCurrentOp (UpdateStatusToString (status st))
     (SetString kNewSize (format_nat (unat (new_size_bytes st)))
     (SetString kProgress (float_text (format_double (progress st)))
     (SetString kLastCheckedTime (format_int (sint (last_checked_time st))) []))))))))"

definition UpdateEngineStatusToString ::
  "('d \<Rightarrow> FloatChar list) \<Rightarrow> 'd UpdateEngineStatus \<Rightarrow> string" where
  "UpdateEngineStatusToString format_double st =
     SaveToString (UpdateEngineStatusStore format_double st)"

text \<open>
  Keys and values a line \<^verbatim>\<open>key=value\<close> carries unharmed: a key that is not empty,
  neither starts nor ends with whitespace, does not start with \<^verbatim>\<open>#\<close> and holds no
  \<^verbatim>\<open>=\<close> or newline; a value that holds no newline and does not end in a backslash.
\<close>

definition plain_key :: "string \<Rightarrow> bool" where
  "plain_key key \<longleftrightarrow>
     key \<noteq> [] \<and> hd key \<notin> set kWhitespaceASCII \<and> hd key \<noteq> CHR ''#''
     \<and> last key \<notin> set kWhitespaceASCII \<and> CHR ''='' \<notin> set key \<and> NL \<notin> set key"

definition plain_value :: "string \<Rightarrow> bool" where
  "plain_value v \<longleftrightarrow> NL \<notin> set v \<and> (v = [] \<or> last v \<noteq> CHR 0x5C)"

text \<open>The line \<^verbatim>\<open>SaveToString\<close> writes for one entry, without its newline.\<close>

definition entry_line :: "string \<times> string \<Rightarrow> string" where
  "entry_line e = fst e @ CHR ''='' # snd e"

section \<open>The attempt coordinator (\<^verbatim>\<open>aosp/update_attempter_android.h\<close>)\<close>

text \<open>
  The header declares the coordinator; the bodies of its member functions are not
  among the sources. \<^verbatim>\<open>OTAResult\<close> is the enumeration of the header; its
  enumerators carry the prefix \<^verbatim>\<open>OTA_\<close> here, since \<^verbatim>\<open>UPDATED_NEED_REBOOT\<close> is
  also a status.
\<close>

datatype OTAResult =
    OTA_NOT_ATTEMPTED
  | OTA_ROLLED_BACK
  | OTA_UPDATED_NEED_REBOOT
  | OTA_SUCCESSFUL

text \<open>
  Modelled from the spec: what the coordinator reports on restart (the bodies of
  \<^verbatim>\<open>Init\<close>, \<^verbatim>\<open>GetOTAUpdateResult\<close> and \<^verbatim>\<open>OTARebootSucceeded\<close> are missing). The
  marker \<^verbatim>\<open>update_completed_marker\<close> holds the payload fingerprint and the target
  slot of the last attempt. When the marker exists and the active slot is that
  target slot, the status reported is \<^verbatim>\<open>UPDATED_NEED_REBOOT\<close>; when it exists and the
  active slot is another one (the old slot), the status is \<^verbatim>\<open>IDLE\<close> and the last
  attempt counts as rolled back. The spec says nothing for a restart without marker:
  the result is \<^verbatim>\<open>None\<close> there.
\<close>

record UpdateCompletedMarker =
  PAYLOAD_FP :: string
  TARGET_SLOT :: Slot

definition ReportOnRestart ::
  "UpdateCompletedMarker option \<Rightarrow> Slot \<Rightarrow> (UpdateStatus \<times> OTAResult) option" where
  "ReportOnRestart marker active_slot =
     (case marker of
        None \<Rightarrow> None
      | Some m \<Rightarrow>
          if active_slot = TARGET_SLOT m
          then Some (UPDATED_NEED_REBOOT, OTA_UPDATED_NEED_REBOOT)
          else Some (IDLE, OTA_ROLLED_BACK))"

text \<open>
  Modelled from the spec: \<^verbatim>\<open>AllocateSpaceForPayload\<close> (declared in the header, body
  missing). Called in state \<^verbatim>\<open>IDLE\<close> it returns 0 when the space the payload needs
  is there, and otherwise the shortfall: the bytes needed beyond those available.
  The spec gives no result for another state (\<^verbatim>\<open>None\<close>).
\<close>

definition AllocateSpaceForPayload :: "UpdateStatus \<Rightarrow> nat \<Rightarrow> nat \<Rightarrow> nat option" where
  "AllocateSpaceForPayload state available_bytes required_bytes =
     (if state \<noteq> IDLE then None
      else if required_bytes \<le> available_bytes then Some 0
      else Some (required_bytes - available_bytes))"

text \<open>
  Modelled from the spec: the status broadcast (the bodies of \<^verbatim>\<open>ProgressUpdate\<close>
  and \<^verbatim>\<open>SetStatusAndNotify\<close> are missing; the header declares
  \<^verbatim>\<open>last_notify_time_\<close> as monotonic \<^verbatim>\<open>base::TimeTicks\<close>). Every state change is
  delivered to the observers; a progress report is delivered when at least
  \<open>threshold_ms\<close> have passed on the monotonic clock since the last notification and
  the progress has moved far enough, and dropped otherwise. Each happening carries
  the readings of both clocks at its time. Progress is a \<^verbatim>\<open>double\<close>: its type is
  left open, and "the progress delta is at least the threshold" is the parameter
  \<open>delta_reached\<close>, applied to the last progress delivered and the new one.
\<close>

datatype 'p Happening = StateChange UpdateStatus | ProgressReport 'p

record 'p Tick =
  monotonic_ms :: int
  wall_clock_ms :: int
  happening :: "'p Happening"

record 'p Broadcaster =
  last_notify_time :: int
  broadcast_status :: UpdateStatus
  download_progress :: 'p
  delivered :: "(UpdateStatus \<times> 'p) list"

definition Notify :: "int \<Rightarrow> 'p Broadcaster \<Rightarrow> 'p Broadcaster" where
  "Notify now b =
     b\<lparr>last_notify_time := now,
       delivered := delivered b @ [(broadcast_status b, download_progress b)]\<rparr>"

definition Broadcast ::
  "int \<Rightarrow> ('p \<Rightarrow> 'p \<Rightarrow> bool) \<Rightarrow> 'p Tick \<Rightarrow> 'p Broadcaster \<Rightarrow> 'p Broadcaster" where
  "Broadcast threshold_ms delta_reached t b =
     (case happening t of
        StateChange s \<Rightarrow> Notify (monotonic_ms t) (b\<lparr>broadcast_status := s\<rparr>)
      | ProgressReport p \<Rightarrow>
          if monotonic_ms t - last_notify_time b \<ge> threshold_ms
             \<and> delta_reached (download_progress b) p
          then Notify (monotonic_ms t) (b\<lparr>download_progress := p\<rparr>)
          else b)"

definition BroadcastAll ::
  "int \<Rightarrow> ('p \<Rightarrow> 'p \<Rightarrow> bool) \<Rightarrow> 'p Tick list \<Rightarrow> 'p Broadcaster \<Rightarrow> 'p Broadcaster" where
  "BroadcastAll threshold_ms delta_reached ts b =
     fold (Broadcast threshold_ms delta_reached) ts b"

text \<open>Two executions differ solely in wall-clock adjustments.\<close>

definition same_but_wall_clock :: "'p Tick list \<Rightarrow> 'p Tick list \<Rightarrow> bool" where
  "same_but_wall_clock ts ts' \<longleftrightarrow>
     map (\<lambda>t. (monotonic_ms t, happening t)) ts = map (\<lambda>t. (monotonic_ms t, happening t)) ts'"

text \<open>Fixtures for a concrete run: progress in whole percent, and a fresh broadcaster.\<close>

definition percent_moved :: "nat \<Rightarrow> nat \<Rightarrow> bool" where
  "percent_moved last_delivered p \<longleftrightarrow> last_delivered + 1 \<le> p"

definition Broadcaster_init :: "nat Broadcaster" where
  "Broadcaster_init = \<lparr> last_notify_time = 0, broadcast_status = IDLE, download_progress = 0,
     delivered = [] \<rparr>"

section \<open>Properties\<close>

subsection \<open>Defaults of the install plan\<close>

text \<open>
  C5. A freshly constructed \<^verbatim>\<open>InstallPlan\<close> has \<^verbatim>\<open>switch_slot_on_reboot\<close>,
  \<^verbatim>\<open>run_post_install\<close> and \<^verbatim>\<open>write_verity\<close> set, while
  \<^verbatim>\<open>hash_checks_mandatory\<close>, \<^verbatim>\<open>powerwash_required\<close>, \<^verbatim>\<open>spl_downgrade\<close> and
  \<^verbatim>\<open>batched_writes\<close> are clear.
\<close>

theorem C5_install_plan_defaults:
  "switch_slot_on_reboot InstallPlan_default
   \<and> run_post_install InstallPlan_default
   \<and> write_verity InstallPlan_default
   \<and> \<not> hash_checks_mandatory InstallPlan_default
   \<and> \<not> powerwash_required InstallPlan_default
   \<and> \<not> spl_downgrade InstallPlan_default
   \<and> \<not> batched_writes InstallPlan_default"
  by (simp add: InstallPlan_default_def)

subsection \<open>The install-plan action\<close>

text \<open>
  C9. Executing the \<^verbatim>\<open>InstallPlan\<close> source stage completes with
  \<^verbatim>\<open>ErrorCode::kSuccess\<close> whatever its state, leaves its own plan as it was, puts
  that plan unchanged into the output pipe when one is attached, and sets no output
  when none is attached.
\<close>

theorem C9_PerformAction:
  "completed (PerformAction a) = Some kSuccess
   \<and> install_plan (PerformAction a) = install_plan a
   \<and> (\<forall>p. out_pipe a = Some p \<longrightarrow>
          out_pipe (PerformAction a) = Some (p\<lparr>contents := Some (install_plan a)\<rparr>))
   \<and> (out_pipe a = None \<longrightarrow> out_pipe (PerformAction a) = None)"
  by (cases "out_pipe a")
     (simp_all add: PerformAction_def ActionComplete_def HasOutputPipe_def SetOutputObject_def)

theorem C9_PerformAction_witness:
  "completed (PerformAction \<lparr>install_plan = InstallPlan_default\<lparr>is_resume := True\<rparr>,
                 out_pipe = Some \<lparr>contents = None\<rparr>, completed = None\<rparr>) = Some 0
   \<and> out_pipe (PerformAction \<lparr>install_plan = InstallPlan_default\<lparr>is_resume := True\<rparr>,
                 out_pipe = Some \<lparr>contents = None\<rparr>, completed = None\<rparr>)
       = Some \<lparr>contents = Some (InstallPlan_default\<lparr>is_resume := True\<rparr>)\<rparr>
   \<and> out_pipe (PerformAction \<lparr>install_plan = InstallPlan_default\<lparr>is_resume := True\<rparr>,
                 out_pipe = None, completed = None\<rparr>) = None"
  using C9_PerformAction [of "\<lparr>install_plan = InstallPlan_default\<lparr>is_resume := True\<rparr>,
                 out_pipe = Some \<lparr>contents = None\<rparr>, completed = None\<rparr>"]
        C9_PerformAction [of "\<lparr>install_plan = InstallPlan_default\<lparr>is_resume := True\<rparr>,
                 out_pipe = None, completed = None\<rparr>"]
  by (simp add: kSuccess_def)

subsection \<open>Exit codes of the client\<close>

text \<open>
  C1. When the message loop accepts the exit task and no exit is pending, the
  terminal callback \<^verbatim>\<open>onPayloadApplicationComplete(error_code)\<close> makes the client
  exit with code 0 exactly when the code is \<^verbatim>\<open>kSuccess\<close> (0) or
  \<^verbatim>\<open>kUpdatedButNotActive\<close> (52), and with code 1 for every other code.
\<close>

theorem C1_terminal_code_exit:
  assumes "PostTask_ok env" and "quit_tasks c = []"
  shows "(exit_code_of (onPayloadApplicationComplete env error_code c) = Some 0
            \<longleftrightarrow> error_code = kSuccess \<or> error_code = kUpdatedButNotActive)
         \<and> (error_code \<noteq> kSuccess \<and> error_code \<noteq> kUpdatedButNotActive
            \<longrightarrow> exit_code_of (onPayloadApplicationComplete env error_code c) = Some 1)"
proof -
  let ?rc = "if error_code = kSuccess \<or> error_code = kUpdatedButNotActive then EX_OK else 1"
  have "quit_tasks (onPayloadApplicationComplete env error_code c) = [?rc]"
    using assms by (simp add: onPayloadApplicationComplete_def ExitWhenIdle_int_def)
  then have "exit_code_of (onPayloadApplicationComplete env error_code c) = Some ?rc"
    by (simp add: exit_code_of_def)
  then show ?thesis
    by (simp add: EX_OK_def)
qed

theorem C1_terminal_code_exit_witness:
  "exit_code_of (onPayloadApplicationComplete (Env_of 2 [] Flags_default None) 52 Client_init) = Some 0
   \<and> exit_code_of (onPayloadApplicationComplete (Env_of 2 [] Flags_default None) 0 Client_init) = Some 0
   \<and> exit_code_of (onPayloadApplicationComplete (Env_of 2 [] Flags_default None) 51 Client_init) = Some 1"
proof -
  have p: "PostTask_ok (Env_of 2 [] Flags_default None)"
    by (simp add: Env_of_def)
  have q: "quit_tasks Client_init = []"
    by (simp add: Client_init_def)
  note inst = C1_terminal_code_exit [OF p q, unfolded kSuccess_def kUpdatedButNotActive_def]
  show ?thesis
    using inst [of 52] inst [of 0] inst [of 51] by simp
qed


subsection \<open>Which call decides the exit code\<close>












subsection \<open>Header lines\<close>

lemma SplitStringT_no_separator:
  "set l \<inter> set separators = {} \<Longrightarrow>
   SplitStringT separators KEEP_WHITESPACE result_type cur l =
   push_piece KEEP_WHITESPACE result_type (cur @ l) []"
  by (induction l arbitrary: cur) auto

lemma SplitStringT_first_separator:
  "set l \<inter> set separators = {} \<Longrightarrow> d \<in> set separators \<Longrightarrow>
   SplitStringT separators KEEP_WHITESPACE result_type cur (l @ d # rest) =
   push_piece KEEP_WHITESPACE result_type (cur @ l)
     (SplitStringT separators KEEP_WHITESPACE result_type [] rest)"
  by (induction l arbitrary: cur) auto

lemma SplitStringT_join_lines:
  "\<forall>l\<in>set ls. NL \<notin> set l \<Longrightarrow>
   SplitStringT [NL] KEEP_WHITESPACE SPLIT_WANT_NONEMPTY [] (join_lines ls) =
   filter (\<lambda>l. l \<noteq> []) ls"
proof (induction ls rule: join_lines.induct)
  case 1
  show ?case by (simp add: push_piece_def)
next
  case (2 l)
  then have "set l \<inter> set [NL] = {}" by simp
  then show ?case
    by (simp add: SplitStringT_no_separator push_piece_def del: set_simps)
next
  case (3 l l' ls)
  then have l: "set l \<inter> set [NL] = {}" by simp
  from 3 have IH:
    "SplitStringT [NL] KEEP_WHITESPACE SPLIT_WANT_NONEMPTY [] (join_lines (l' # ls)) =
     filter (\<lambda>l. l \<noteq> []) (l' # ls)"
    by simp
  show ?case
    using SplitStringT_first_separator
            [OF l, of NL SPLIT_WANT_NONEMPTY "[]" "join_lines (l' # ls)"] IH
    by (simp add: push_piece_def)
qed

lemma join_lines_decompose:
  "\<exists>ls. (\<forall>l\<in>set ls. NL \<notin> set l) \<and> arg = join_lines ls"
proof (induction arg)
  case Nil
  have "(\<forall>l\<in>set ([]::string list). NL \<notin> set l) \<and> [] = join_lines []" by simp
  then show ?case by blast
next
  case (Cons c arg)
  then obtain ls where ls: "\<forall>l\<in>set ls. NL \<notin> set l" "arg = join_lines ls" by blast
  show ?case
  proof (cases "c = NL")
    case True
    show ?thesis
    proof (cases ls)
      case Nil
      with ls True
      have "(\<forall>l\<in>set [[], []]. NL \<notin> set l) \<and> c # arg = join_lines [[], []]" by simp
      then show ?thesis by blast
    next
      case (Cons l ls')
      with ls True
      have "(\<forall>l\<in>set ([] # ls). NL \<notin> set l) \<and> c # arg = join_lines ([] # ls)" by simp
      then show ?thesis by blast
    qed
  next
    case False
    show ?thesis
    proof (cases ls)
      case Nil
      with ls False
      have "(\<forall>l\<in>set [[c]]. NL \<notin> set l) \<and> c # arg = join_lines [[c]]" by simp
      then show ?thesis by blast
    next
      case (Cons l ls')
      with ls False
      have "(\<forall>l\<in>set ((c # l) # ls'). NL \<notin> set l) \<and> c # arg = join_lines ((c # l) # ls')"
        by (cases ls') auto
      then show ?thesis by blast
    qed
  qed
qed

text \<open>
  C10. Every \<^verbatim>\<open>--headers\<close> argument is a sequence of newline-free lines joined by
  newline characters, and for each such reading of the argument
  \<^verbatim>\<open>ParseHeaders\<close> returns exactly its non-empty lines, in their order and each
  one character for character: it splits at newlines only, drops empty lines,
  keeps whitespace, and checks no \<^verbatim>\<open>KEY=VALUE\<close> shape.
\<close>

theorem C10_ParseHeaders_lines:
  "(\<exists>ls. (\<forall>l\<in>set ls. NL \<notin> set l) \<and> arg = join_lines ls) \<and>
   (\<forall>ls. (\<forall>l\<in>set ls. NL \<notin> set l) \<and> arg = join_lines ls \<longrightarrow>
      ParseHeaders arg = map String16 (filter (\<lambda>l. l \<noteq> []) ls))"
proof (intro conjI allI impI)
  show "\<exists>ls. (\<forall>l\<in>set ls. NL \<notin> set l) \<and> arg = join_lines ls"
    by (rule join_lines_decompose)
next
  fix ls
  assume a: "(\<forall>l\<in>set ls. NL \<notin> set l) \<and> arg = join_lines ls"
  then have split:
    "SplitStringT [NL] KEEP_WHITESPACE SPLIT_WANT_NONEMPTY [] arg = filter (\<lambda>l. l \<noteq> []) ls"
    using SplitStringT_join_lines [of ls] by simp
  have "SplitString arg [NL] KEEP_WHITESPACE SPLIT_WANT_NONEMPTY =
        SplitStringT [NL] KEEP_WHITESPACE SPLIT_WANT_NONEMPTY [] arg"
    by (simp add: SplitString_def push_piece_def)
  with split show "ParseHeaders arg = map String16 (filter (\<lambda>l. l \<noteq> []) ls)"
    by (simp add: ParseHeaders_def)
qed

theorem C10_ParseHeaders_lines_witness:
  "ParseHeaders (''FILE_SIZE=10'' @ [NL] @ [NL] @ ''  no equals sign '' @ [NL] @ ''=x=y'') =
     [String16 ''FILE_SIZE=10'', String16 ''  no equals sign '', String16 ''=x=y'']"
  using C10_ParseHeaders_lines
    [of "''FILE_SIZE=10'' @ [NL] @ [NL] @ ''  no equals sign '' @ [NL] @ ''=x=y''"]
  apply (elim conjE)
  apply (drule spec [of _ "[''FILE_SIZE=10'', [], ''  no equals sign '', ''=x=y'']"])
  apply simp
  done

subsection \<open>Decimal text is read back\<close>

lemma digit_value_digit_char: "d < 10 \<Longrightarrow> digit_value (digit_char d) = Some d"
proof -
  assume "d < 10"
  then have "d = 0 \<or> d = 1 \<or> d = 2 \<or> d = 3 \<or> d = 4 \<or> d = 5 \<or> d = 6 \<or> d = 7 \<or> d = 8 \<or> d = 9"
    by arith
  then show ?thesis
    by (elim disjE) (simp_all add: digit_value_def digit_char_def less_eq_char_def)
qed

lemma parse_digits_append:
  "parse_digits acc (xs @ ys) =
     (case parse_digits acc xs of None \<Rightarrow> None | Some a \<Rightarrow> parse_digits a ys)"
  by (induction xs arbitrary: acc) (auto split: option.splits)

lemma parse_digits_format_nat: "parse_digits 0 (format_nat n) = Some n"
proof (induction n rule: format_nat.induct)
  case (1 n)
  show ?case
  proof (cases "n < 10")
    case True
    then show ?thesis
      by (simp add: format_nat.simps [of n] digit_value_digit_char)
  next
    case False
    with 1 have "parse_digits 0 (format_nat (n div 10)) = Some (n div 10)" by simp
    with False show ?thesis
      by (simp add: format_nat.simps [of n] parse_digits_append digit_value_digit_char)
  qed
qed

lemma format_nat_nonempty: "format_nat n \<noteq> []"
  by (subst format_nat.simps) simp

lemma parse_nat_format_nat: "parse_nat (format_nat n) = Some n"
  by (simp add: parse_nat_def format_nat_nonempty parse_digits_format_nat)

lemma format_nat_digits: "c \<in> set (format_nat n) \<Longrightarrow> digit_value c \<noteq> None"
proof (induction n rule: format_nat.induct)
  case (1 n)
  show ?case
  proof (cases "n < 10")
    case True
    with 1(2) have "c = digit_char n" by (simp add: format_nat.simps [of n])
    with True show ?thesis by (simp add: digit_value_digit_char)
  next
    case False
    with 1(2) have "c \<in> set (format_nat (n div 10)) \<or> c = digit_char (n mod 10)"
      by (auto simp: format_nat.simps [of n])
    then show ?thesis
    proof
      assume "c \<in> set (format_nat (n div 10))"
      with 1(1) False show ?thesis by simp
    next
      assume "c = digit_char (n mod 10)"
      then show ?thesis by (simp add: digit_value_digit_char)
    qed
  qed
qed

lemma format_int_chars: "c \<in> set (format_int i) \<Longrightarrow> c = CHR ''-'' \<or> digit_value c \<noteq> None"
  by (auto simp: format_int_def dest: format_nat_digits split: if_splits)

lemma parse_int_format_int: "parse_int (format_int i) = Some i"
proof (cases "i < 0")
  case True
  then show ?thesis
    by (simp add: parse_int_def format_int_def parse_nat_format_nat)
next
  case False
  obtain c cs where f: "format_nat (nat i) = c # cs"
    using format_nat_nonempty [of "nat i"] by (cases "format_nat (nat i)") auto
  then have "c \<in> set (format_nat (nat i))" by simp
  then have "digit_value c \<noteq> None" by (rule format_nat_digits)
  then have "c \<noteq> CHR ''-''" by (auto simp: digit_value_def less_eq_char_def)
  moreover have "parse_nat (c # cs) = Some (nat i)"
    using parse_nat_format_nat [of "nat i"] f by simp
  ultimately show ?thesis
    using False f by (simp add: parse_int_def format_int_def)
qed

subsection \<open>The entries of the status store\<close>

lemmas key_defs = kCurrentOp_def kIsInstall_def kIsEnterpriseRollback_def kLastCheckedTime_def
  kNewSize_def kNewVersion_def kProgress_def kWillPowerwashAfterReboot_def

lemmas status_string_defs = kUpdateStatusIdle_def kUpdateStatusCheckingForUpdate_def
  kUpdateStatusUpdateAvailable_def kUpdateStatusDownloading_def kUpdateStatusVerifying_def
  kUpdateStatusFinalizing_def kUpdateStatusUpdatedNeedReboot_def
  kUpdateStatusReportingErrorEvent_def kUpdateStatusAttemptingRollback_def
  kUpdateStatusDisabled_def kUpdateStatusNeedPermissionToUpdate_def
  kUpdateStatusCleanupPreviousUpdate_def

lemma TrimKey_keys:
  "TrimKey kCurrentOp = kCurrentOp" "TrimKey kIsInstall = kIsInstall"
  "TrimKey kIsEnterpriseRollback = kIsEnterpriseRollback"
  "TrimKey kLastCheckedTime = kLastCheckedTime" "TrimKey kNewSize = kNewSize"
  "TrimKey kNewVersion = kNewVersion" "TrimKey kProgress = kProgress"
  "TrimKey kWillPowerwashAfterReboot = kWillPowerwashAfterReboot"
  by (simp_all add: TrimKey_def TrimAll_def TrimLeading_def TrimTrailing_def kWhitespaceASCII_def
        kCurrentOp_def kIsInstall_def kIsEnterpriseRollback_def kLastCheckedTime_def kNewSize_def
        kNewVersion_def kProgress_def kWillPowerwashAfterReboot_def)

lemma UpdateEngineStatusStore_entries:
  "UpdateEngineStatusStore format_double st =
     [(kCurrentOp, UpdateStatusToString (status st)),
      (kIsEnterpriseRollback, if is_enterprise_rollback st then kTrueValue else kFalseValue),
      (kIsInstall, if is_install st then kTrueValue else kFalseValue),
      (kLastCheckedTime, format_int (sint (last_checked_time st))),
      (kNewSize, format_nat (unat (new_size_bytes st))),
      (kNewVersion, new_version st),
      (kProgress, float_text (format_double (progress st))),
      (kWillPowerwashAfterReboot,
         if will_powerwash_after_reboot st then kTrueValue else kFalseValue)]"
  unfolding UpdateEngineStatusStore_def SetBoolean_def SetString_def TrimKey_keys
  by (simp add: kCurrentOp_def kIsInstall_def kIsEnterpriseRollback_def kLastCheckedTime_def
        kNewSize_def kNewVersion_def kProgress_def kWillPowerwashAfterReboot_def)

lemma GetString_UpdateEngineStatusStore:
  "GetString kCurrentOp (UpdateEngineStatusStore fd st) = Some (UpdateStatusToString (status st))"
  "GetString kIsEnterpriseRollback (UpdateEngineStatusStore fd st) =
     Some (if is_enterprise_rollback st then kTrueValue else kFalseValue)"
  "GetString kIsInstall (UpdateEngineStatusStore fd st) =
     Some (if is_install st then kTrueValue else kFalseValue)"
  "GetString kLastCheckedTime (UpdateEngineStatusStore fd st) =
     Some (format_int (sint (last_checked_time st)))"
  "GetString kNewSize (UpdateEngineStatusStore fd st) =
     Some (format_nat (unat (new_size_bytes st)))"
  "GetString kNewVersion (UpdateEngineStatusStore fd st) = Some (new_version st)"
  "GetString kProgress (UpdateEngineStatusStore fd st) = Some (float_text (fd (progress st)))"
  "GetString kWillPowerwashAfterReboot (UpdateEngineStatusStore fd st) =
     Some (if will_powerwash_after_reboot st then kTrueValue else kFalseValue)"
  unfolding UpdateEngineStatusStore_entries GetString_def TrimKey_keys
  by (simp_all add: key_defs)

subsection \<open>Loading what was saved\<close>

lemma UpdateStatusToString_plain:
  "NL \<notin> set (UpdateStatusToString s)" "last (UpdateStatusToString s) \<noteq> CHR 0x5C"
  "UpdateStatusToString s \<noteq> []"
  by (cases s; simp add: status_string_defs)+

lemma TrimLeading_plain: "s \<noteq> [] \<Longrightarrow> hd s \<notin> set kWhitespaceASCII \<Longrightarrow> TrimLeading s = s"
  by (cases s) (simp_all add: TrimLeading_def)

lemma TrimTrailing_plain: "s \<noteq> [] \<Longrightarrow> last s \<notin> set kWhitespaceASCII \<Longrightarrow> TrimTrailing s = s"
proof -
  assume a: "s \<noteq> []" "last s \<notin> set kWhitespaceASCII"
  then obtain c cs where r: "rev s = c # cs" by (cases "rev s") auto
  then have "last s = c" using a(1) by (simp add: last_rev [symmetric] del: last_rev) 
  with a(2) r have "dropWhile (\<lambda>c. c \<in> set kWhitespaceASCII) (rev s) = rev s" by simp
  then show ?thesis by (simp add: TrimTrailing_def)
qed

lemma SplitAtFirst_key_value:
  "d \<notin> set key \<Longrightarrow> SplitAtFirst (key @ d # v) d = Some (key, v)"
proof -
  assume a: "d \<notin> set key"
  then have "takeWhile (\<lambda>c. c \<noteq> d) (key @ d # v) = key"
    by (induction key) auto
  moreover from a have "dropWhile (\<lambda>c. c \<noteq> d) (key @ d # v) = d # v"
    by (induction key) auto
  ultimately show ?thesis by (simp add: SplitAtFirst_def)
qed

lemma LoadLines_key_value_line:
  assumes "plain_key key" and "plain_value v"
  shows "LoadLines ((key @ CHR ''='' # v) # rest) store = LoadLines rest (store_assign key v store)"
proof -
  obtain c cs where key: "key = c # cs" using assms(1) by (cases key) (auto simp: plain_key_def)
  have tl: "TrimLeading (key @ CHR ''='' # v) = key @ CHR ''='' # v"
    using assms(1) by (intro TrimLeading_plain) (auto simp: plain_key_def key)
  have hd: "hd (key @ CHR ''='' # v) \<noteq> CHR ''#''"
    using assms(1) by (simp add: plain_key_def key)
  have sp: "SplitAtFirst (key @ CHR ''='' # v) CHR ''='' = Some (key, v)"
    using assms(1) by (intro SplitAtFirst_key_value) (simp add: plain_key_def)
  have tt: "TrimTrailing key = key"
    using assms(1) by (intro TrimTrailing_plain) (auto simp: plain_key_def)
  have ac: "append_continuation_lines v rest = Some (v, rest)"
    using assms(2) by (subst append_continuation_lines.simps) (auto simp: plain_value_def)
  show ?thesis
    by (subst LoadLines.simps) (simp add: tl hd sp tt ac key [symmetric] Let_def, simp add: key)
qed

lemma SaveToString_Cons:
  "SaveToString ((k, v) # store) = entry_line (k, v) @ NL # SaveToString store"
  by (simp add: SaveToString_def entry_line_def)

lemma SplitStringT_SaveToString:
  "\<forall>e\<in>set store. NL \<notin> set (entry_line e) \<Longrightarrow>
   SplitStringT [NL] KEEP_WHITESPACE SPLIT_WANT_ALL [] (SaveToString store) =
   map entry_line store @ [[]]"
proof (induction store)
  case Nil
  show ?case by (simp add: SaveToString_def push_piece_def)
next
  case (Cons e store)
  obtain k v where e: "e = (k, v)" by (cases e)
  from Cons.prems have l: "set (entry_line (k, v)) \<inter> set [NL] = {}" by (simp add: e)
  from Cons have IH: "SplitStringT [NL] KEEP_WHITESPACE SPLIT_WANT_ALL [] (SaveToString store) =
     map entry_line store @ [[]]" by simp
  show ?case
    unfolding e SaveToString_Cons
    using SplitStringT_first_separator [OF l, of NL SPLIT_WANT_ALL "[]" "SaveToString store"] IH
    by (simp add: push_piece_def)
qed

lemma LoadLines_blank: "LoadLines [[]] store = Some store"
  by (simp add: LoadLines.simps TrimLeading_def)

lemma LoadLines_entry_lines:
  "\<forall>e\<in>set entries. plain_key (fst e) \<and> plain_value (snd e) \<Longrightarrow>
   LoadLines (map entry_line entries @ [[]]) store =
   Some (fold (\<lambda>e. store_assign (fst e) (snd e)) entries store)"
proof (induction entries arbitrary: store)
  case Nil
  show ?case by (simp add: LoadLines_blank)
next
  case (Cons e entries)
  then have "plain_key (fst e)" "plain_value (snd e)" by simp_all
  then have "LoadLines (entry_line e # (map entry_line entries @ [[]])) store =
     LoadLines (map entry_line entries @ [[]]) (store_assign (fst e) (snd e) store)"
    unfolding entry_line_def by (rule LoadLines_key_value_line)
  with Cons show ?case by simp
qed

lemma LoadFromString_SaveToString:
  assumes "\<forall>e\<in>set store. plain_key (fst e) \<and> plain_value (snd e)" and "store \<noteq> []"
  shows "LoadFromString (SaveToString store) =
         Some (fold (\<lambda>e. store_assign (fst e) (snd e)) store [])"
proof -
  have "\<forall>e\<in>set store. NL \<notin> set (entry_line e)"
    using assms(1) by (auto simp: entry_line_def plain_key_def plain_value_def)
  then have lines: "SplitStringT [NL] KEEP_WHITESPACE SPLIT_WANT_ALL [] (SaveToString store) =
     map entry_line store @ [[]]"
    by (rule SplitStringT_SaveToString)
  obtain k v rest where "store = (k, v) # rest"
    using assms(2) by (cases store) auto
  then have "SaveToString store \<noteq> []" by (simp add: SaveToString_def)
  then show ?thesis
    using lines LoadLines_entry_lines [OF assms(1), of "[]"]
    by (simp add: LoadFromString_def SplitString_def)
qed

lemma plain_keys:
  "plain_key kCurrentOp" "plain_key kIsInstall" "plain_key kIsEnterpriseRollback"
  "plain_key kLastCheckedTime" "plain_key kNewSize" "plain_key kNewVersion"
  "plain_key kProgress" "plain_key kWillPowerwashAfterReboot"
  by (simp_all add: plain_key_def key_defs kWhitespaceASCII_def)

lemma plain_value_bool: "plain_value (if b then kTrueValue else kFalseValue)"
  by (simp add: plain_value_def kTrueValue_def kFalseValue_def)

lemma digit_value_not_special:
  "digit_value c \<noteq> None \<Longrightarrow> c \<noteq> NL \<and> c \<noteq> CHR 0x5C"
  by (auto simp: digit_value_def less_eq_char_def)

lemma plain_value_format_nat: "plain_value (format_nat n)"
proof -
  have "\<forall>c\<in>set (format_nat n). c \<noteq> NL \<and> c \<noteq> CHR 0x5C"
    using format_nat_digits digit_value_not_special by blast
  moreover have "last (format_nat n) \<in> set (format_nat n)"
    using format_nat_nonempty by simp
  ultimately show ?thesis
    unfolding plain_value_def by blast
qed

lemma plain_value_format_int: "plain_value (format_int i)"
proof -
  have "\<forall>c\<in>set (format_int i). c \<noteq> NL \<and> c \<noteq> CHR 0x5C"
    using format_int_chars digit_value_not_special by fastforce
  moreover have "format_int i \<noteq> []"
    by (simp add: format_int_def format_nat_nonempty)
  then have "last (format_int i) \<in> set (format_int i)" by simp
  ultimately show ?thesis
    unfolding plain_value_def by blast
qed

lemma plain_value_status: "plain_value (UpdateStatusToString s)"
  by (simp add: plain_value_def UpdateStatusToString_plain)

lemma fold_entries:
  "fold (\<lambda>e. store_assign (fst e) (snd e))
     [(kCurrentOp, a), (kIsEnterpriseRollback, b), (kIsInstall, c), (kLastCheckedTime, d),
      (kNewSize, e), (kNewVersion, f), (kProgress, g), (kWillPowerwashAfterReboot, h)] [] =
     [(kCurrentOp, a), (kIsEnterpriseRollback, b), (kIsInstall, c), (kLastCheckedTime, d),
      (kNewSize, e), (kNewVersion, f), (kProgress, g), (kWillPowerwashAfterReboot, h)]"
  by (simp add: key_defs)

subsection \<open>The keys of the status blob\<close>

lemma float_char_plain: "float_char c \<noteq> NL \<and> float_char c \<noteq> CHR 0x5C"
  by (cases c) simp_all

lemma plain_value_float_text: "plain_value (float_text t)"
proof -
  have "\<forall>c\<in>set (float_text t). c \<noteq> NL \<and> c \<noteq> CHR 0x5C"
    using float_char_plain by (auto simp: float_text_def)
  moreover have "float_text t \<noteq> [] \<Longrightarrow> last (float_text t) \<in> set (float_text t)"
    by simp
  ultimately show ?thesis
    unfolding plain_value_def by blast
qed

lemma UpdateEngineStatusStore_plain:
  assumes "plain_value (new_version st)"
  shows "\<forall>e\<in>set (UpdateEngineStatusStore format_double st). plain_key (fst e) \<and> plain_value (snd e)"
  unfolding UpdateEngineStatusStore_entries
  using assms
  by (simp add: plain_keys plain_value_bool plain_value_format_nat plain_value_format_int
        plain_value_status plain_value_float_text del: if_split)

lemma LoadFromString_UpdateEngineStatusToString:
  assumes "plain_value (new_version st)"
  shows "LoadFromString (UpdateEngineStatusToString format_double st) =
         Some (UpdateEngineStatusStore format_double st)"
proof -
  have ne: "UpdateEngineStatusStore format_double st \<noteq> []"
    by (simp add: UpdateEngineStatusStore_entries)
  show ?thesis
    unfolding UpdateEngineStatusToString_def
      LoadFromString_SaveToString [OF UpdateEngineStatusStore_plain [OF assms] ne]
    unfolding UpdateEngineStatusStore_entries fold_entries ..
qed

lemma UpdateEngineStatusStore_keys:
  "map fst (UpdateEngineStatusStore format_double st) =
     [''CURRENT_OP'', ''IS_ENTERPRISE_ROLLBACK'', ''IS_INSTALL'', ''LAST_CHECKED_TIME'',
      ''NEW_SIZE'', ''NEW_VERSION'', ''PROGRESS'', ''WILL_POWERWASH_AFTER_REBOOT'']"
  unfolding UpdateEngineStatusStore_entries by (simp add: key_defs)

lemma UpdateEngineStatusToString_text:
  "UpdateEngineStatusToString format_double st =
     ''CURRENT_OP='' @ UpdateStatusToString (status st) @ [NL] @
     ''IS_ENTERPRISE_ROLLBACK='' @ (if is_enterprise_rollback st then ''true'' else ''false'') @ [NL] @
     ''IS_INSTALL='' @ (if is_install st then ''true'' else ''false'') @ [NL] @
     ''LAST_CHECKED_TIME='' @ format_int (sint (last_checked_time st)) @ [NL] @
     ''NEW_SIZE='' @ format_nat (unat (new_size_bytes st)) @ [NL] @
     ''NEW_VERSION='' @ new_version st @ [NL] @
     ''PROGRESS='' @ float_text (format_double (progress st)) @ [NL] @
     ''WILL_POWERWASH_AFTER_REBOOT='' @
        (if will_powerwash_after_reboot st then ''true'' else ''false'') @ [NL]"
  unfolding UpdateEngineStatusToString_def UpdateEngineStatusStore_entries SaveToString_def
  by (simp add: key_defs kTrueValue_def kFalseValue_def)

lemma LoadLines_continued_line:
  assumes "plain_key key" and "l \<noteq> []" and "plain_value (v @ l)"
  shows "LoadLines ((key @ CHR ''='' # v @ [CHR 0x5C]) # l # rest) store =
         LoadLines rest (store_assign key (v @ l) store)"
proof -
  let ?line = "key @ CHR ''='' # v @ [CHR 0x5C]"
  obtain c cs where key: "key = c # cs" using assms(1) by (cases key) (auto simp: plain_key_def)
  have tl: "TrimLeading ?line = ?line"
    using assms(1) by (intro TrimLeading_plain) (auto simp: plain_key_def key)
  have hd: "hd ?line \<noteq> CHR ''#''"
    using assms(1) by (simp add: plain_key_def key)
  have sp: "SplitAtFirst ?line CHR ''='' = Some (key, v @ [CHR 0x5C])"
    using assms(1) by (intro SplitAtFirst_key_value) (simp add: plain_key_def)
  have tt: "TrimTrailing key = key"
    using assms(1) by (intro TrimTrailing_plain) (auto simp: plain_key_def)
  have "append_continuation_lines (v @ l) rest = Some (v @ l, rest)"
    using assms(3) by (subst append_continuation_lines.simps) (auto simp: plain_value_def)
  then have ac: "append_continuation_lines (v @ [CHR 0x5C]) (l # rest) = Some (v @ l, rest)"
    using assms(2) by (subst append_continuation_lines.simps) simp
  show ?thesis
    by (subst LoadLines.simps) (simp add: tl hd sp tt ac key [symmetric] Let_def, simp add: key)
qed

text \<open>
  C4, amended. The blob \<^verbatim>\<open>UpdateEngineStatusToString\<close> returns is the eight lines
  \<^verbatim>\<open>KEY=value\<close> of \<^verbatim>\<open>CURRENT_OP\<close>, \<^verbatim>\<open>IS_ENTERPRISE_ROLLBACK\<close>,
  \<^verbatim>\<open>IS_INSTALL\<close>, \<^verbatim>\<open>LAST_CHECKED_TIME\<close>, \<^verbatim>\<open>NEW_SIZE\<close>, \<^verbatim>\<open>NEW_VERSION\<close>,
  \<^verbatim>\<open>PROGRESS\<close> and \<^verbatim>\<open>WILL_POWERWASH_AFTER_REBOOT\<close>, in this order. When
  \<^verbatim>\<open>new_version\<close> holds no newline and does not end in a backslash, the blob read
  back with \<^verbatim>\<open>LoadFromString\<close> has exactly these eight keys, each once, and under
  \<^verbatim>\<open>CURRENT_OP\<close> the literal string of the status, which is \<^verbatim>\<open>UPDATE_STATUS_\<close>
  followed by the name of the state.
\<close>

theorem C4_status_blob_keys:
  "UpdateEngineStatusToString format_double st =
     ''CURRENT_OP='' @ UpdateStatusToString (status st) @ [NL] @
     ''IS_ENTERPRISE_ROLLBACK='' @ (if is_enterprise_rollback st then ''true'' else ''false'') @ [NL] @
     ''IS_INSTALL='' @ (if is_install st then ''true'' else ''false'') @ [NL] @
     ''LAST_CHECKED_TIME='' @ format_int (sint (last_checked_time st)) @ [NL] @
     ''NEW_SIZE='' @ format_nat (unat (new_size_bytes st)) @ [NL] @
     ''NEW_VERSION='' @ new_version st @ [NL] @
     ''PROGRESS='' @ float_text (format_double (progress st)) @ [NL] @
     ''WILL_POWERWASH_AFTER_REBOOT='' @
        (if will_powerwash_after_reboot st then ''true'' else ''false'') @ [NL]
   \<and> (NL \<notin> set (new_version st)
        \<and> (new_version st = [] \<or> last (new_version st) \<noteq> CHR 0x5C) \<longrightarrow>
      (\<exists>store. LoadFromString (UpdateEngineStatusToString format_double st) = Some store
         \<and> set (map fst store) =
             {''LAST_CHECKED_TIME'', ''PROGRESS'', ''NEW_SIZE'', ''CURRENT_OP'', ''NEW_VERSION'',
              ''IS_ENTERPRISE_ROLLBACK'', ''IS_INSTALL'', ''WILL_POWERWASH_AFTER_REBOOT''}
         \<and> distinct (map fst store)
         \<and> GetString ''CURRENT_OP'' store = Some (UpdateStatusToString (status st))))
   \<and> UpdateStatusToString IDLE = ''UPDATE_STATUS_IDLE''
   \<and> UpdateStatusToString CHECKING_FOR_UPDATE = ''UPDATE_STATUS_CHECKING_FOR_UPDATE''
   \<and> UpdateStatusToString UPDATE_AVAILABLE = ''UPDATE_STATUS_UPDATE_AVAILABLE''
   \<and> UpdateStatusToString NEED_PERMISSION_TO_UPDATE = ''UPDATE_STATUS_NEED_PERMISSION_TO_UPDATE''
   \<and> UpdateStatusToString DOWNLOADING = ''UPDATE_STATUS_DOWNLOADING''
   \<and> UpdateStatusToString VERIFYING = ''UPDATE_STATUS_VERIFYING''
   \<and> UpdateStatusToString FINALIZING = ''UPDATE_STATUS_FINALIZING''
   \<and> UpdateStatusToString UPDATED_NEED_REBOOT = ''UPDATE_STATUS_UPDATED_NEED_REBOOT''
   \<and> UpdateStatusToString REPORTING_ERROR_EVENT = ''UPDATE_STATUS_REPORTING_ERROR_EVENT''
   \<and> UpdateStatusToString ATTEMPTING_ROLLBACK = ''UPDATE_STATUS_ATTEMPTING_ROLLBACK''
   \<and> UpdateStatusToString DISABLED = ''UPDATE_STATUS_DISABLED''
   \<and> UpdateStatusToString CLEANUP_PREVIOUS_UPDATE = ''UPDATE_STATUS_CLEANUP_PREVIOUS_UPDATE''"
proof -
  let ?store = "UpdateEngineStatusStore format_double st"
  note blob = UpdateEngineStatusToString_text [of format_double st]
  have read: "NL \<notin> set (new_version st)
        \<and> (new_version st = [] \<or> last (new_version st) \<noteq> CHR 0x5C) \<longrightarrow>
      (\<exists>store. LoadFromString (UpdateEngineStatusToString format_double st) = Some store
         \<and> set (map fst store) =
             {''LAST_CHECKED_TIME'', ''PROGRESS'', ''NEW_SIZE'', ''CURRENT_OP'', ''NEW_VERSION'',
              ''IS_ENTERPRISE_ROLLBACK'', ''IS_INSTALL'', ''WILL_POWERWASH_AFTER_REBOOT''}
         \<and> distinct (map fst store)
         \<and> GetString ''CURRENT_OP'' store = Some (UpdateStatusToString (status st)))"
  proof
    assume "NL \<notin> set (new_version st)
        \<and> (new_version st = [] \<or> last (new_version st) \<noteq> CHR 0x5C)"
    then have "plain_value (new_version st)" by (simp add: plain_value_def)
    then have load: "LoadFromString (UpdateEngineStatusToString format_double st) = Some ?store"
      by (rule LoadFromString_UpdateEngineStatusToString)
    have key_set: "set (map fst ?store) =
             {''LAST_CHECKED_TIME'', ''PROGRESS'', ''NEW_SIZE'', ''CURRENT_OP'', ''NEW_VERSION'',
              ''IS_ENTERPRISE_ROLLBACK'', ''IS_INSTALL'', ''WILL_POWERWASH_AFTER_REBOOT''}"
      unfolding UpdateEngineStatusStore_keys by auto
    have dist: "distinct (map fst ?store)"
      unfolding UpdateEngineStatusStore_keys by simp
    have op: "GetString ''CURRENT_OP'' ?store = Some (UpdateStatusToString (status st))"
      using GetString_UpdateEngineStatusStore(1) [of format_double st]
      by (simp add: kCurrentOp_def)
    from load key_set dist op
    show "\<exists>store. LoadFromString (UpdateEngineStatusToString format_double st) = Some store
         \<and> set (map fst store) =
             {''LAST_CHECKED_TIME'', ''PROGRESS'', ''NEW_SIZE'', ''CURRENT_OP'', ''NEW_VERSION'',
              ''IS_ENTERPRISE_ROLLBACK'', ''IS_INSTALL'', ''WILL_POWERWASH_AFTER_REBOOT''}
         \<and> distinct (map fst store)
         \<and> GetString ''CURRENT_OP'' store = Some (UpdateStatusToString (status st))"
      by (intro exI [of _ ?store] conjI)
  qed
  have names: "UpdateStatusToString IDLE = ''UPDATE_STATUS_IDLE''"
    "UpdateStatusToString CHECKING_FOR_UPDATE = ''UPDATE_STATUS_CHECKING_FOR_UPDATE''"
    "UpdateStatusToString UPDATE_AVAILABLE = ''UPDATE_STATUS_UPDATE_AVAILABLE''"
    "UpdateStatusToString NEED_PERMISSION_TO_UPDATE = ''UPDATE_STATUS_NEED_PERMISSION_TO_UPDATE''"
    "UpdateStatusToString DOWNLOADING = ''UPDATE_STATUS_DOWNLOADING''"
    "UpdateStatusToString VERIFYING = ''UPDATE_STATUS_VERIFYING''"
    "UpdateStatusToString FINALIZING = ''UPDATE_STATUS_FINALIZING''"
    "UpdateStatusToString UPDATED_NEED_REBOOT = ''UPDATE_STATUS_UPDATED_NEED_REBOOT''"
    "UpdateStatusToString REPORTING_ERROR_EVENT = ''UPDATE_STATUS_REPORTING_ERROR_EVENT''"
    "UpdateStatusToString ATTEMPTING_ROLLBACK = ''UPDATE_STATUS_ATTEMPTING_ROLLBACK''"
    "UpdateStatusToString DISABLED = ''UPDATE_STATUS_DISABLED''"
    "UpdateStatusToString CLEANUP_PREVIOUS_UPDATE = ''UPDATE_STATUS_CLEANUP_PREVIOUS_UPDATE''"
    by (simp_all add: status_string_defs)
  from blob read names show ?thesis by (intro conjI)
qed

text \<open>
  The eight keys and \<^verbatim>\<open>CURRENT_OP=UPDATE_STATUS_DOWNLOADING\<close> of a status with
  \<^verbatim>\<open>new_version\<close> = \<^verbatim>\<open>14.0.2\<close> and \<^verbatim>\<open>progress\<close> = 0.47 (its IEEE 754 bits),
  whatever text is written for the \<^verbatim>\<open>double\<close>.
\<close>

theorem C4_status_blob_keys_witness:
  "\<forall>format_double :: 64 word \<Rightarrow> FloatChar list.
   \<exists>store. LoadFromString (UpdateEngineStatusToString format_double
        \<lparr> last_checked_time = 1700000000, progress = 0x3FDE147AE147AE14,
          new_size_bytes = 1048576, status = DOWNLOADING, new_version = ''14.0.2'',
          is_enterprise_rollback = False, is_install = False,
          will_powerwash_after_reboot = True \<rparr>) = Some store
      \<and> set (map fst store) =
          {''LAST_CHECKED_TIME'', ''PROGRESS'', ''NEW_SIZE'', ''CURRENT_OP'', ''NEW_VERSION'',
           ''IS_ENTERPRISE_ROLLBACK'', ''IS_INSTALL'', ''WILL_POWERWASH_AFTER_REBOOT''}
      \<and> distinct (map fst store)
      \<and> GetString ''CURRENT_OP'' store = Some ''UPDATE_STATUS_DOWNLOADING''"
proof
  fix format_double :: "64 word \<Rightarrow> FloatChar list"
  let ?st = "\<lparr> last_checked_time = 1700000000, progress = 0x3FDE147AE147AE14 :: 64 word,
          new_size_bytes = 1048576, status = DOWNLOADING, new_version = ''14.0.2'',
          is_enterprise_rollback = False, is_install = False,
          will_powerwash_after_reboot = True \<rparr>"
  have h: "NL \<notin> set (new_version ?st)
        \<and> (new_version ?st = [] \<or> last (new_version ?st) \<noteq> CHR 0x5C)"
    by simp
  have s: "UpdateStatusToString (status ?st) = ''UPDATE_STATUS_DOWNLOADING''"
    by (simp add: kUpdateStatusDownloading_def)
  have "\<exists>store. LoadFromString (UpdateEngineStatusToString format_double ?st) = Some store
         \<and> set (map fst store) =
             {''LAST_CHECKED_TIME'', ''PROGRESS'', ''NEW_SIZE'', ''CURRENT_OP'', ''NEW_VERSION'',
              ''IS_ENTERPRISE_ROLLBACK'', ''IS_INSTALL'', ''WILL_POWERWASH_AFTER_REBOOT''}
         \<and> distinct (map fst store)
         \<and> GetString ''CURRENT_OP'' store = Some (UpdateStatusToString (status ?st))"
    by (rule C4_status_blob_keys [of format_double ?st, THEN conjunct2, THEN conjunct1, THEN mp,
          OF h])
  then show "\<exists>store. LoadFromString (UpdateEngineStatusToString format_double ?st) = Some store
      \<and> set (map fst store) =
          {''LAST_CHECKED_TIME'', ''PROGRESS'', ''NEW_SIZE'', ''CURRENT_OP'', ''NEW_VERSION'',
           ''IS_ENTERPRISE_ROLLBACK'', ''IS_INSTALL'', ''WILL_POWERWASH_AFTER_REBOOT''}
      \<and> distinct (map fst store)
      \<and> GetString ''CURRENT_OP'' store = Some ''UPDATE_STATUS_DOWNLOADING''"
    unfolding s .
qed

text \<open>
  What \<^verbatim>\<open>LoadFromString\<close> reads in three blobs whose \<^verbatim>\<open>new_version\<close> is not a
  plain value.
\<close>

lemma blob_ninth_key:
  fixes format_double :: "64 word \<Rightarrow> FloatChar list"
  shows "LoadFromString (UpdateEngineStatusToString format_double
        \<lparr> last_checked_time = 0, progress = 0, new_size_bytes = 0, status = DOWNLOADING,
          new_version = ''1'' @ [NL] @ ''ZZZ=2'', is_enterprise_rollback = False,
          is_install = False, will_powerwash_after_reboot = False \<rparr>) =
     Some [(''CURRENT_OP'', ''UPDATE_STATUS_DOWNLOADING''), (''IS_ENTERPRISE_ROLLBACK'', ''false''),
           (''IS_INSTALL'', ''false''), (''LAST_CHECKED_TIME'', ''0''), (''NEW_SIZE'', ''0''),
           (''NEW_VERSION'', ''1''), (''PROGRESS'', float_text (format_double 0)),
           (''WILL_POWERWASH_AFTER_REBOOT'', ''false''), (''ZZZ'', ''2'')]"
proof -
  let ?entries = "[(''CURRENT_OP'', ''UPDATE_STATUS_DOWNLOADING''), (''IS_ENTERPRISE_ROLLBACK'', ''false''),
           (''IS_INSTALL'', ''false''), (''LAST_CHECKED_TIME'', ''0''), (''NEW_SIZE'', ''0''),
           (''NEW_VERSION'', ''1''), (''ZZZ'', ''2''), (''PROGRESS'', float_text (format_double 0)),
           (''WILL_POWERWASH_AFTER_REBOOT'', ''false'')]"
  have blob: "UpdateEngineStatusToString format_double
        \<lparr> last_checked_time = 0, progress = 0, new_size_bytes = 0, status = DOWNLOADING,
          new_version = ''1'' @ [NL] @ ''ZZZ=2'', is_enterprise_rollback = False,
          is_install = False, will_powerwash_after_reboot = False \<rparr> = SaveToString ?entries"
    unfolding UpdateEngineStatusToString_text
    by (simp add: SaveToString_def kUpdateStatusDownloading_def format_int_def format_nat.simps
          digit_char_def)
  have plain: "\<forall>e\<in>set ?entries. plain_key (fst e) \<and> plain_value (snd e)"
    using plain_value_float_text [of "format_double 0"]
    by (simp add: plain_key_def plain_value_def kWhitespaceASCII_def)
  show ?thesis
    unfolding blob LoadFromString_SaveToString [OF plain, simplified]
    by simp
qed

lemma blob_spoofed_current_op:
  fixes format_double :: "64 word \<Rightarrow> FloatChar list"
  shows "LoadFromString (UpdateEngineStatusToString format_double
        \<lparr> last_checked_time = 0, progress = 0, new_size_bytes = 0, status = DOWNLOADING,
          new_version = ''1'' @ [NL] @ ''CURRENT_OP=UPDATE_STATUS_IDLE'',
          is_enterprise_rollback = False,
          is_install = False, will_powerwash_after_reboot = False \<rparr>) =
     Some [(''CURRENT_OP'', ''UPDATE_STATUS_IDLE''), (''IS_ENTERPRISE_ROLLBACK'', ''false''),
           (''IS_INSTALL'', ''false''), (''LAST_CHECKED_TIME'', ''0''), (''NEW_SIZE'', ''0''),
           (''NEW_VERSION'', ''1''), (''PROGRESS'', float_text (format_double 0)),
           (''WILL_POWERWASH_AFTER_REBOOT'', ''false'')]"
proof -
  let ?entries = "[(''CURRENT_OP'', ''UPDATE_STATUS_DOWNLOADING''), (''IS_ENTERPRISE_ROLLBACK'', ''false''),
           (''IS_INSTALL'', ''false''), (''LAST_CHECKED_TIME'', ''0''), (''NEW_SIZE'', ''0''),
           (''NEW_VERSION'', ''1''), (''CURRENT_OP'', ''UPDATE_STATUS_IDLE''),
           (''PROGRESS'', float_text (format_double 0)),
           (''WILL_POWERWASH_AFTER_REBOOT'', ''false'')]"
  have blob: "UpdateEngineStatusToString format_double
        \<lparr> last_checked_time = 0, progress = 0, new_size_bytes = 0, status = DOWNLOADING,
          new_version = ''1'' @ [NL] @ ''CURRENT_OP=UPDATE_STATUS_IDLE'',
          is_enterprise_rollback = False,
          is_install = False, will_powerwash_after_reboot = False \<rparr> = SaveToString ?entries"
    unfolding UpdateEngineStatusToString_text
    by (simp add: SaveToString_def kUpdateStatusDownloading_def format_int_def format_nat.simps
          digit_char_def)
  have plain: "\<forall>e\<in>set ?entries. plain_key (fst e) \<and> plain_value (snd e)"
    using plain_value_float_text [of "format_double 0"]
    by (simp add: plain_key_def plain_value_def kWhitespaceASCII_def)
  show ?thesis
    unfolding blob LoadFromString_SaveToString [OF plain, simplified]
    by simp
qed

lemma blob_continued_line:
  fixes format_double :: "64 word \<Rightarrow> FloatChar list"
  shows "LoadFromString (UpdateEngineStatusToString format_double
        \<lparr> last_checked_time = 0, progress = 0, new_size_bytes = 0, status = DOWNLOADING,
          new_version = ''1'' @ [CHR 0x5C], is_enterprise_rollback = False,
          is_install = False, will_powerwash_after_reboot = False \<rparr>) =
     Some [(''CURRENT_OP'', ''UPDATE_STATUS_DOWNLOADING''), (''IS_ENTERPRISE_ROLLBACK'', ''false''),
           (''IS_INSTALL'', ''false''), (''LAST_CHECKED_TIME'', ''0''), (''NEW_SIZE'', ''0''),
           (''NEW_VERSION'', ''1PROGRESS='' @ float_text (format_double 0)),
           (''WILL_POWERWASH_AFTER_REBOOT'', ''false'')]"
proof -
  let ?st = "\<lparr> last_checked_time = 0, progress = 0 :: 64 word, new_size_bytes = 0,
          status = DOWNLOADING,
          new_version = ''1'' @ [CHR 0x5C], is_enterprise_rollback = False,
          is_install = False, will_powerwash_after_reboot = False \<rparr>"
  let ?store = "UpdateEngineStatusStore format_double ?st"
  let ?p = "float_text (format_double 0)"
  have nl: "\<forall>e\<in>set ?store. NL \<notin> set (entry_line e)"
    unfolding UpdateEngineStatusStore_entries
    using plain_value_float_text [of "format_double 0"]
    by (simp add: entry_line_def key_defs kUpdateStatusDownloading_def kFalseValue_def
          format_int_def format_nat.simps digit_char_def plain_value_def)
  have ne: "UpdateEngineStatusToString format_double ?st \<noteq> []"
    unfolding UpdateEngineStatusToString_text by simp
  have lines: "SplitString (UpdateEngineStatusToString format_double ?st) [NL] KEEP_WHITESPACE
                 SPLIT_WANT_ALL =
     [''CURRENT_OP=UPDATE_STATUS_DOWNLOADING'', ''IS_ENTERPRISE_ROLLBACK=false'',
      ''IS_INSTALL=false'', ''LAST_CHECKED_TIME=0'', ''NEW_SIZE=0'',
      ''NEW_VERSION'' @ CHR ''='' # ''1'' @ [CHR 0x5C], ''PROGRESS='' @ ?p,
      ''WILL_POWERWASH_AFTER_REBOOT=false'', []]"
    using ne SplitStringT_SaveToString [OF nl]
    unfolding SplitString_def UpdateEngineStatusToString_def [symmetric]
    by (simp add: UpdateEngineStatusStore_entries entry_line_def key_defs
          kUpdateStatusDownloading_def kFalseValue_def format_int_def format_nat.simps
          digit_char_def)
  have pk: "plain_key ''CURRENT_OP''" "plain_key ''IS_ENTERPRISE_ROLLBACK''"
    "plain_key ''IS_INSTALL''" "plain_key ''LAST_CHECKED_TIME''" "plain_key ''NEW_SIZE''"
    "plain_key ''NEW_VERSION''" "plain_key ''WILL_POWERWASH_AFTER_REBOOT''"
    by (simp_all add: plain_key_def kWhitespaceASCII_def)
  have pv: "plain_value ''UPDATE_STATUS_DOWNLOADING''" "plain_value ''false''" "plain_value ''0''"
    by (simp_all add: plain_value_def)
  have pc: "plain_value (''1'' @ ''PROGRESS='' @ ?p)"
    using plain_value_float_text [of "format_double 0"]
    by (auto simp: plain_value_def)
  have l1: "''CURRENT_OP=UPDATE_STATUS_DOWNLOADING'' = ''CURRENT_OP'' @ CHR ''='' # ''UPDATE_STATUS_DOWNLOADING''"
    and l2: "''IS_ENTERPRISE_ROLLBACK=false'' = ''IS_ENTERPRISE_ROLLBACK'' @ CHR ''='' # ''false''"
    and l3: "''IS_INSTALL=false'' = ''IS_INSTALL'' @ CHR ''='' # ''false''"
    and l4: "''LAST_CHECKED_TIME=0'' = ''LAST_CHECKED_TIME'' @ CHR ''='' # ''0''"
    and l5: "''NEW_SIZE=0'' = ''NEW_SIZE'' @ CHR ''='' # ''0''"
    and l8: "''WILL_POWERWASH_AFTER_REBOOT=false'' = ''WILL_POWERWASH_AFTER_REBOOT'' @ CHR ''='' # ''false''"
    by simp_all
  have s6: "LoadLines ((''NEW_VERSION'' @ CHR ''='' # ''1'' @ [CHR 0x5C]) # (''PROGRESS='' @ ?p) # rest)
               store =
            LoadLines rest (store_assign ''NEW_VERSION'' (''1'' @ ''PROGRESS='' @ ?p) store)"
    for rest store
    by (rule LoadLines_continued_line [OF pk(6) _ pc]) simp
  show ?thesis
    unfolding LoadFromString_def lines
    unfolding l1 l2 l3 l4 l5
    unfolding LoadLines_key_value_line [OF pk(1) pv(1)] LoadLines_key_value_line [OF pk(2) pv(2)]
      LoadLines_key_value_line [OF pk(3) pv(2)] LoadLines_key_value_line [OF pk(4) pv(3)]
      LoadLines_key_value_line [OF pk(5) pv(3)]
    by (simp add: s6 [simplified] LoadLines_key_value_line [OF pk(7) pv(2), simplified]
          LoadLines_blank)
qed

text \<open>
  C4, as the spec states it, fails for a \<^verbatim>\<open>new_version\<close> that holds a newline or
  ends in a backslash, as \<^verbatim>\<open>SaveToString\<close> escapes nothing. With \<^verbatim>\<open>new_version\<close>
  = \<^verbatim>\<open>1\<close>, newline, \<^verbatim>\<open>ZZZ=2\<close> the blob has a ninth key \<^verbatim>\<open>ZZZ\<close>. With
  \<^verbatim>\<open>new_version\<close> = \<^verbatim>\<open>1\<close>, newline, \<^verbatim>\<open>CURRENT_OP=UPDATE_STATUS_IDLE\<close> and the
  status \<^verbatim>\<open>DOWNLOADING\<close>, the value of \<^verbatim>\<open>CURRENT_OP\<close> in the blob is
  \<^verbatim>\<open>UPDATE_STATUS_IDLE\<close>. With \<^verbatim>\<open>new_version\<close> = \<^verbatim>\<open>1\<close>, backslash, the line of
  \<^verbatim>\<open>PROGRESS\<close> continues the value of \<^verbatim>\<open>NEW_VERSION\<close> and the blob has seven keys.
\<close>

theorem C4_new_version_counterexample:
  "(\<forall>format_double :: 64 word \<Rightarrow> FloatChar list.
      \<exists>store. LoadFromString (UpdateEngineStatusToString format_double
        \<lparr> last_checked_time = 0, progress = 0, new_size_bytes = 0, status = DOWNLOADING,
          new_version = ''1'' @ [NL] @ ''ZZZ=2'', is_enterprise_rollback = False,
          is_install = False, will_powerwash_after_reboot = False \<rparr>) = Some store
        \<and> map fst store =
            [''CURRENT_OP'', ''IS_ENTERPRISE_ROLLBACK'', ''IS_INSTALL'', ''LAST_CHECKED_TIME'',
             ''NEW_SIZE'', ''NEW_VERSION'', ''PROGRESS'', ''WILL_POWERWASH_AFTER_REBOOT'', ''ZZZ''])
   \<and> (\<forall>format_double :: 64 word \<Rightarrow> FloatChar list.
      \<exists>store. LoadFromString (UpdateEngineStatusToString format_double
        \<lparr> last_checked_time = 0, progress = 0, new_size_bytes = 0, status = DOWNLOADING,
          new_version = ''1'' @ [NL] @ ''CURRENT_OP=UPDATE_STATUS_IDLE'',
          is_enterprise_rollback = False,
          is_install = False, will_powerwash_after_reboot = False \<rparr>) = Some store
        \<and> GetString ''CURRENT_OP'' store = Some ''UPDATE_STATUS_IDLE''
        \<and> UpdateStatusToString DOWNLOADING = ''UPDATE_STATUS_DOWNLOADING'')
   \<and> (\<forall>format_double :: 64 word \<Rightarrow> FloatChar list.
      \<exists>store. LoadFromString (UpdateEngineStatusToString format_double
        \<lparr> last_checked_time = 0, progress = 0, new_size_bytes = 0, status = DOWNLOADING,
          new_version = ''1'' @ [CHR 0x5C], is_enterprise_rollback = False,
          is_install = False, will_powerwash_after_reboot = False \<rparr>) = Some store
        \<and> map fst store =
            [''CURRENT_OP'', ''IS_ENTERPRISE_ROLLBACK'', ''IS_INSTALL'', ''LAST_CHECKED_TIME'',
             ''NEW_SIZE'', ''NEW_VERSION'', ''WILL_POWERWASH_AFTER_REBOOT'']
        \<and> GetString ''NEW_VERSION'' store = Some (''1PROGRESS='' @ float_text (format_double 0)))"
proof (intro conjI allI)
  fix format_double :: "64 word \<Rightarrow> FloatChar list"
  show "\<exists>store. LoadFromString (UpdateEngineStatusToString format_double
        \<lparr> last_checked_time = 0, progress = 0, new_size_bytes = 0, status = DOWNLOADING,
          new_version = ''1'' @ [NL] @ ''ZZZ=2'', is_enterprise_rollback = False,
          is_install = False, will_powerwash_after_reboot = False \<rparr>) = Some store
        \<and> map fst store =
            [''CURRENT_OP'', ''IS_ENTERPRISE_ROLLBACK'', ''IS_INSTALL'', ''LAST_CHECKED_TIME'',
             ''NEW_SIZE'', ''NEW_VERSION'', ''PROGRESS'', ''WILL_POWERWASH_AFTER_REBOOT'', ''ZZZ'']"
    by (intro exI conjI, rule blob_ninth_key) simp
  show "\<exists>store. LoadFromString (UpdateEngineStatusToString format_double
        \<lparr> last_checked_time = 0, progress = 0, new_size_bytes = 0, status = DOWNLOADING,
          new_version = ''1'' @ [NL] @ ''CURRENT_OP=UPDATE_STATUS_IDLE'',
          is_enterprise_rollback = False,
          is_install = False, will_powerwash_after_reboot = False \<rparr>) = Some store
        \<and> GetString ''CURRENT_OP'' store = Some ''UPDATE_STATUS_IDLE''
        \<and> UpdateStatusToString DOWNLOADING = ''UPDATE_STATUS_DOWNLOADING''"
    by (intro exI conjI, rule blob_spoofed_current_op)
       (simp_all add: GetString_def TrimKey_def TrimAll_def TrimLeading_def TrimTrailing_def
          kWhitespaceASCII_def kUpdateStatusDownloading_def)
  show "\<exists>store. LoadFromString (UpdateEngineStatusToString format_double
        \<lparr> last_checked_time = 0, progress = 0, new_size_bytes = 0, status = DOWNLOADING,
          new_version = ''1'' @ [CHR 0x5C], is_enterprise_rollback = False,
          is_install = False, will_powerwash_after_reboot = False \<rparr>) = Some store
        \<and> map fst store =
            [''CURRENT_OP'', ''IS_ENTERPRISE_ROLLBACK'', ''IS_INSTALL'', ''LAST_CHECKED_TIME'',
             ''NEW_SIZE'', ''NEW_VERSION'', ''WILL_POWERWASH_AFTER_REBOOT'']
        \<and> GetString ''NEW_VERSION'' store = Some (''1PROGRESS='' @ float_text (format_double 0))"
    by (intro exI conjI, rule blob_continued_line)
       (simp_all add: GetString_def TrimKey_def TrimAll_def TrimLeading_def TrimTrailing_def
          kWhitespaceASCII_def)
qed

subsection \<open>The attempt coordinator, as the spec describes it\<close>

text \<open>
  C2. On restart, when \<^verbatim>\<open>update_completed_marker\<close> exists and the active slot is
  the target slot of the last attempt, the coordinator reports
  \<^verbatim>\<open>UPDATED_NEED_REBOOT\<close>; when the marker exists and the active slot is still the
  old slot, a slot other than that target, it reports \<^verbatim>\<open>IDLE\<close> and classifies
  the last attempt as rolled back.
\<close>

theorem C2_report_on_restart:
  "(marker = Some m \<and> active_slot = TARGET_SLOT m \<longrightarrow>
      map_option fst (ReportOnRestart marker active_slot) = Some UPDATED_NEED_REBOOT)
   \<and> (marker = Some m \<and> old_slot \<noteq> TARGET_SLOT m \<and> active_slot = old_slot \<longrightarrow>
      ReportOnRestart marker active_slot = Some (IDLE, OTA_ROLLED_BACK))"
  by (simp add: ReportOnRestart_def)

theorem C2_report_on_restart_witness:
  "map_option fst (ReportOnRestart (Some \<lparr>PAYLOAD_FP = ''fp'', TARGET_SLOT = 1\<rparr>) 1)
     = Some UPDATED_NEED_REBOOT
   \<and> ReportOnRestart (Some \<lparr>PAYLOAD_FP = ''fp'', TARGET_SLOT = 1\<rparr>) 0
     = Some (IDLE, OTA_ROLLED_BACK)"
  using C2_report_on_restart [of "Some \<lparr>PAYLOAD_FP = ''fp'', TARGET_SLOT = 1\<rparr>"
          "\<lparr>PAYLOAD_FP = ''fp'', TARGET_SLOT = 1\<rparr>" 1 0]
        C2_report_on_restart [of "Some \<lparr>PAYLOAD_FP = ''fp'', TARGET_SLOT = 1\<rparr>"
          "\<lparr>PAYLOAD_FP = ''fp'', TARGET_SLOT = 1\<rparr>" 0 0]
  by simp

lemma Broadcast_wall_clock:
  "monotonic_ms t = monotonic_ms t' \<Longrightarrow> happening t = happening t' \<Longrightarrow>
   Broadcast n d t b = Broadcast n d t' b"
  by (simp add: Broadcast_def split: Happening.split)

text \<open>
  C6. Two executions that differ solely in the wall-clock readings (the same
  happenings at the same monotonic times) deliver the same sequence of status
  notifications to the observers, from any state of the broadcaster.
\<close>

theorem C6_throttle_ignores_wall_clock:
  assumes "same_but_wall_clock ts ts'"
  shows "delivered (BroadcastAll threshold_ms delta_reached ts b) =
         delivered (BroadcastAll threshold_ms delta_reached ts' b)"
proof -
  have "length ts = length ts'"
    using assms unfolding same_but_wall_clock_def by (rule map_eq_imp_length_eq)
  then have "same_but_wall_clock ts ts' \<Longrightarrow>
     fold (Broadcast threshold_ms delta_reached) ts b =
     fold (Broadcast threshold_ms delta_reached) ts' b"
  proof (induction ts ts' arbitrary: b rule: list_induct2)
    case Nil
    show ?case by simp
  next
    case (Cons t ts t' ts')
    from Cons.prems have h: "monotonic_ms t = monotonic_ms t'" "happening t = happening t'"
      and rest: "same_but_wall_clock ts ts'"
      by (simp_all add: same_but_wall_clock_def)
    show ?case
      using Broadcast_wall_clock [OF h] Cons.IH [OF rest] by simp
  qed
  with assms show ?thesis by (simp add: BroadcastAll_def)
qed

theorem C6_throttle_ignores_wall_clock_witness:
  "delivered (BroadcastAll 200 percent_moved
      [\<lparr>monotonic_ms = 10, wall_clock_ms = 5000, happening = StateChange DOWNLOADING\<rparr>,
       \<lparr>monotonic_ms = 100, wall_clock_ms = 5090, happening = ProgressReport 5\<rparr>,
       \<lparr>monotonic_ms = 300, wall_clock_ms = 5290, happening = ProgressReport 9\<rparr>]
      Broadcaster_init)
   = delivered (BroadcastAll 200 percent_moved
      [\<lparr>monotonic_ms = 10, wall_clock_ms = 5000, happening = StateChange DOWNLOADING\<rparr>,
       \<lparr>monotonic_ms = 100, wall_clock_ms = - 86400000, happening = ProgressReport 5\<rparr>,
       \<lparr>monotonic_ms = 300, wall_clock_ms = - 86399800, happening = ProgressReport 9\<rparr>]
      Broadcaster_init)
   \<and> delivered (BroadcastAll 200 percent_moved
      [\<lparr>monotonic_ms = 10, wall_clock_ms = 5000, happening = StateChange DOWNLOADING\<rparr>,
       \<lparr>monotonic_ms = 100, wall_clock_ms = - 86400000, happening = ProgressReport 5\<rparr>,
       \<lparr>monotonic_ms = 300, wall_clock_ms = - 86399800, happening = ProgressReport 9\<rparr>]
      Broadcaster_init) = [(DOWNLOADING, 0), (DOWNLOADING, 9)]"
proof (rule conjI)
  show "delivered (BroadcastAll 200 percent_moved
      [\<lparr>monotonic_ms = 10, wall_clock_ms = 5000, happening = StateChange DOWNLOADING\<rparr>,
       \<lparr>monotonic_ms = 100, wall_clock_ms = 5090, happening = ProgressReport 5\<rparr>,
       \<lparr>monotonic_ms = 300, wall_clock_ms = 5290, happening = ProgressReport 9\<rparr>]
      Broadcaster_init)
   = delivered (BroadcastAll 200 percent_moved
      [\<lparr>monotonic_ms = 10, wall_clock_ms = 5000, happening = StateChange DOWNLOADING\<rparr>,
       \<lparr>monotonic_ms = 100, wall_clock_ms = - 86400000, happening = ProgressReport 5\<rparr>,
       \<lparr>monotonic_ms = 300, wall_clock_ms = - 86399800, happening = ProgressReport 9\<rparr>]
      Broadcaster_init)"
    by (rule C6_throttle_ignores_wall_clock) (simp add: same_but_wall_clock_def)
next
  show "delivered (BroadcastAll 200 percent_moved
      [\<lparr>monotonic_ms = 10, wall_clock_ms = 5000, happening = StateChange DOWNLOADING\<rparr>,
       \<lparr>monotonic_ms = 100, wall_clock_ms = - 86400000, happening = ProgressReport 5\<rparr>,
       \<lparr>monotonic_ms = 300, wall_clock_ms = - 86399800, happening = ProgressReport 9\<rparr>]
      Broadcaster_init) = [(DOWNLOADING, 0), (DOWNLOADING, 9)]"
    by (simp add: BroadcastAll_def Broadcast_def Notify_def Broadcaster_init_def
          percent_moved_def)
qed

text \<open>
  C7. Invoked in state \<^verbatim>\<open>IDLE\<close>, \<^verbatim>\<open>AllocateSpaceForPayload\<close> returns 0 when
  the payload fits, and otherwise the byte shortfall: a positive number that, added
  to the bytes available, gives the bytes the payload requires.
\<close>

theorem C7_allocate_space_result:
  "(required_bytes \<le> available_bytes \<longrightarrow>
      AllocateSpaceForPayload IDLE available_bytes required_bytes = Some 0)
   \<and> (available_bytes < required_bytes \<longrightarrow>
      (\<exists>shortfall. AllocateSpaceForPayload IDLE available_bytes required_bytes = Some shortfall
         \<and> 0 < shortfall \<and> available_bytes + shortfall = required_bytes))"
  by (simp add: AllocateSpaceForPayload_def)

theorem C7_allocate_space_result_witness:
  "AllocateSpaceForPayload IDLE 4096 1024 = Some 0
   \<and> AllocateSpaceForPayload IDLE 1024 4096 = Some 3072"
proof -
  have "\<exists>shortfall. AllocateSpaceForPayload IDLE 1024 4096 = Some shortfall
          \<and> 0 < shortfall \<and> 1024 + shortfall = 4096"
    using C7_allocate_space_result [of 4096 1024] by simp
  then have "AllocateSpaceForPayload IDLE 1024 4096 = Some 3072" by auto
  moreover have "AllocateSpaceForPayload IDLE 4096 1024 = Some 0"
    using C7_allocate_space_result [of 1024 4096] by simp
  ultimately show ?thesis by simp
qed

end
